theory Spec2Isabelle
  imports Complex_Main "HOL-Library.Log_Nat"
begin

section \<open>Order-payment reconciliation of the e-commerce backend\<close>

text \<open>
  A shallow embedding of the payment controller (\<^verbatim>\<open>initializePayment\<close>,
  \<^verbatim>\<open>verifyPayment\<close>, \<^verbatim>\<open>handleWebhook\<close>, \<^verbatim>\<open>handleSuccessfulCharge\<close>,
  \<^verbatim>\<open>handleFailedCharge\<close>), of the Paystack service it calls
  (\<^verbatim>\<open>initializeTransaction\<close>, \<^verbatim>\<open>verifyTransaction\<close>,
  \<^verbatim>\<open>validateWebhookSignature\<close>, \<^verbatim>\<open>toKobo\<close>) and of the Payment model with the
  validation its schema declares.

  The database, the gateway and the logger are explicit: a \<open>world\<close> holds the two
  collections, the writes made to them, the calls made to the gateway and the lines
  logged; every handler
  takes a world and returns the new one with its outcome. A handler's outcome is a sum:
  \<open>Inl\<close> is what reaches the error middleware (an \<^verbatim>\<open>AppError\<close> handed to
  \<^verbatim>\<open>next\<close>, or an exception thrown inside the handler, which the async wrapper
  forwards to \<^verbatim>\<open>next\<close>), \<open>Inr\<close> is the JSON response.

  A \<^verbatim>\<open>save\<close> or a \<^verbatim>\<open>create\<close> of a payment runs the validators of the Payment
  schema and rejects a document that fails one; \<^verbatim>\<open>create\<close> also rejects a reference
  the unique index already holds. Reads are modelled as succeeding: a lost connection is
  outside this model, and each handler runs to its end before the next request starts.
\<close>

subsection \<open>JavaScript values\<close>

type_synonym objectId = string

text \<open>
  A \<^verbatim>\<open>Date\<close> object: its time value in milliseconds, or \<^verbatim>\<open>NaN\<close> (an
  \<^verbatim>\<open>Invalid Date\<close>), which is \<open>None\<close>.
\<close>

datatype date = Date "int option"

text \<open>A template literal prints a missing value as \<^verbatim>\<open>undefined\<close>.\<close>

fun str :: "string option \<Rightarrow> string" where
  "str None = ''undefined''"
| "str (Some s) = s"

text \<open>\<^verbatim>\<open>a || b\<close> on strings: a missing or empty left operand gives the right one.\<close>

fun js_or :: "string option \<Rightarrow> string \<Rightarrow> string" where
  "js_or None d = d"
| "js_or (Some s) d = (if s = [] then d else s)"

definition digit :: "nat \<Rightarrow> char" where
  "digit n = ''0123456789'' ! n"

text \<open>The decimal digits of \<^verbatim>\<open>Date.now()\<close> inside a template literal.\<close>

fun decimal :: "nat \<Rightarrow> string" where
  "decimal n = (if n < 10 then [digit n] else decimal (n div 10) @ [digit (n mod 10)])"

subsection \<open>JavaScript numbers\<close>

text \<open>
  A finite Number is an IEEE-754 binary64 value: a rational \<open>m * 2^e\<close> with
  \<open>\<bar>m\<bar> < 2^53\<close> and \<open>-1074 \<le> e \<le> 971\<close>. Amounts are kept as the rational they
  denote; an arithmetic operation computes the exact result and rounds it to the nearest
  binary64 value, ties to the even significand, and to an infinity from \<open>2^1024\<close> on.
\<close>

datatype number = Finite rat | Infinity | NegInfinity

text \<open>\<open>ilog2 x\<close> is the exponent \<open>e\<close> with \<open>2^e \<le> x < 2^(e+1)\<close>, for \<open>x > 0\<close>.\<close>

definition ilog2 :: "rat \<Rightarrow> int" where
  "ilog2 x = (let (p, q) = quotient_of x; d = bitlen p - bitlen q
              in if 2 powi d \<le> x then d else d - 1)"

definition round_half_even :: "rat \<Rightarrow> int" where
  "round_half_even x =
     (let f = \<lfloor>x\<rfloor>; d = x - of_int f
      in if d < 1 / 2 then f else if 1 / 2 < d then f + 1 else if even f then f else f + 1)"

text \<open>Rounding an exact result to binary64 (round to nearest, ties to even).\<close>

definition fl :: "rat \<Rightarrow> number" where
  "fl x =
     (if x = 0 then Finite 0
      else let e = max (ilog2 \<bar>x\<bar> - 52) (- 1074);
               y = of_int (round_half_even (x / 2 powi e)) * 2 powi e
           in if 2 powi 1024 \<le> \<bar>y\<bar> then (if 0 < x then Infinity else NegInfinity)
              else Finite y)"

text \<open>\<^verbatim>\<open>a * b\<close> on finite Numbers.\<close>

definition times_number :: "rat \<Rightarrow> rat \<Rightarrow> number" where
  "times_number a b = fl (a * b)"

text \<open>\<^verbatim>\<open>Math.round\<close>: the nearest integer, a tie going up; an infinity stays.\<close>

fun Math_round :: "number \<Rightarrow> number" where
  "Math_round (Finite x) = Finite (of_int \<lfloor>x + 1 / 2\<rfloor>)"
| "Math_round Infinity = Infinity"
| "Math_round NegInfinity = NegInfinity"

text \<open>\<^verbatim>\<open>exports.toKobo = (amount) => Math.round(amount * 100)\<close>\<close>

definition toKobo :: "rat \<Rightarrow> number" where
  "toKobo amount = Math_round (times_number amount 100)"


subsection \<open>Documents\<close>

text \<open>
  The object a gateway response or a webhook carries under \<^verbatim>\<open>data\<close>: the fields
  the controller reads. \<open>None\<close> is a field the object does not have.
\<close>

record paystackData =
  data_id :: "int option"
  data_status :: "string option"
  data_reference :: "string option"
  data_gateway_response :: "string option"
  data_channel :: "string option"
  data_paid_at :: "string option"
  data_customer_email :: "string option"
  data_authorization_url :: "string option"
  data_access_code :: "string option"

text \<open>The Payment schema's \<^verbatim>\<open>status\<close> enum.\<close>

datatype payment_status = pending | success | failed | abandoned

fun status_str :: "payment_status \<Rightarrow> string" where
  "status_str pending = ''pending''"
| "status_str success = ''success''"
| "status_str failed = ''failed''"
| "status_str abandoned = ''abandoned''"

text \<open>A document of the Payment collection (\<^verbatim>\<open>models/Payment.js\<close>).\<close>

record Payment =
  payment_id :: objectId
  user :: objectId
  order :: objectId
  reference :: string
  amount :: rat
  currency :: string
  status :: payment_status
  paymentMethod :: "string option"
  channel :: "string option"
  gatewayResponse :: "string option"
  paidAt :: "date option"
  paystackData :: paystackData
  metadata :: "string \<rightharpoonup> string"

text \<open>
  The validators of the Payment schema. \<^verbatim>\<open>reference\<close> is required, and an empty
  string is not a value; \<^verbatim>\<open>amount\<close> has \<^verbatim>\<open>min: 0\<close>; \<^verbatim>\<open>currency\<close> and
  \<^verbatim>\<open>paymentMethod\<close> have an \<^verbatim>\<open>enum\<close>, which a missing \<^verbatim>\<open>paymentMethod\<close>
  passes; \<^verbatim>\<open>paidAt\<close> is a \<^verbatim>\<open>Date\<close>, to which an \<^verbatim>\<open>Invalid Date\<close> is not
  cast. \<^verbatim>\<open>status\<close> has an enum too, which the type \<open>payment_status\<close> is; the users
  and orders are object ids by their type. \<open>validate\<close> gives the paths that fail.
\<close>

definition currency_enum :: "string list" where
  "currency_enum = [''NGN'', ''GHS'', ''ZAR'', ''USD'']"

definition paymentMethod_enum :: "string list" where
  "paymentMethod_enum = [''card'', ''bank'', ''ussd'', ''qr'', ''mobile_money'', ''bank_transfer'']"

definition validate :: "Payment \<Rightarrow> string list" where
  "validate p =
     (if reference p = [] then [''reference''] else []) @
     (if amount p < 0 then [''amount''] else []) @
     (if currency p \<in> set currency_enum then [] else [''currency'']) @
     (case paymentMethod p of
        None \<Rightarrow> []
      | Some m \<Rightarrow> if m \<in> set paymentMethod_enum then [] else [''paymentMethod'']) @
     (if paidAt p = Some (Date None) then [''paidAt''] else [])"

text \<open>
  The schema is strict: of the object assigned to \<^verbatim>\<open>paystackData\<close> only the paths
  the schema declares are kept. It declares neither \<^verbatim>\<open>authorization_url\<close> nor
  \<^verbatim>\<open>access_code\<close>.
\<close>

definition strict :: "paystackData \<Rightarrow> paystackData" where
  "strict d = d\<lparr>data_authorization_url := None, data_access_code := None\<rparr>"

record paymentResult =
  result_id :: "int option"
  result_status :: "string option"
  updateTime :: "string option"
  emailAddress :: "string option"

text \<open>
  Modelled from the spec: the Order schema (\<^verbatim>\<open>models/Order.js\<close> is not among the
  sources). The fields are those the payment controller reads and writes: the owning
  user, the total, the paid flag and its timestamp, and the payment snapshot. What the
  schema validates is not known, so \<^verbatim>\<open>order.save()\<close> is taken to accept what the
  controller writes.
\<close>

record Order =
  order_user :: objectId
  totalPrice :: rat
  isPaid :: bool
  order_paidAt :: "date option"
  order_paymentMethod :: "string option"
  paystackReference :: "string option"
  order_paymentResult :: "paymentResult option"

text \<open>\<^verbatim>\<open>req.user\<close>, set by the authentication middleware.\<close>

record User =
  user_id :: objectId
  user_email :: string
  user_name :: string

subsection \<open>The gateway, the logger and the world\<close>

text \<open>What \<^verbatim>\<open>paystack.transaction.initialize\<close> is called with.\<close>

record initialize_params =
  init_email :: string
  init_amount :: number
  init_reference :: string
  init_currency :: string
  init_metadata :: "string \<rightharpoonup> string"
  init_callback_url :: "string option"

datatype gateway_call = TransactionInitialize initialize_params | TransactionVerify string

record paystack_response =
  response_status :: bool
  response_data :: "paystackData option"

text \<open>A call to the gateway resolves with a response or rejects with an error message.\<close>

datatype promise = Resolves paystack_response | Rejects string

text \<open>The gateway is outside the program: what it answers is a parameter.\<close>

record gateway =
  transaction_initialize :: "initialize_params \<Rightarrow> promise"
  transaction_verify :: "string \<Rightarrow> promise"

datatype log_line = Info string | Warn string | Err string

text \<open>
  A write to the database: a \<^verbatim>\<open>create\<close> or a \<^verbatim>\<open>save\<close> that was accepted,
  with the collection and the \<^verbatim>\<open>_id\<close> of the document.
\<close>

datatype db_write = PaymentCreate objectId | PaymentSave objectId | OrderSave objectId

record world =
  orders :: "objectId \<rightharpoonup> Order"
  payments :: "Payment list"
  db_writes :: "db_write list"
  gateway_calls :: "gateway_call list"
  logged :: "log_line list"

definition logger :: "log_line \<Rightarrow> world \<Rightarrow> world" where
  "logger l w = w\<lparr>logged := logged w @ [l]\<rparr>"

text \<open>
  Modelled from the spec: \<^verbatim>\<open>utils/AppError.js\<close> and \<^verbatim>\<open>utils/asyncHandler.js\<close>
  are not among the sources. An \<^verbatim>\<open>AppError\<close> is the message and the status code it
  is built from, and the async wrapper hands an exception thrown inside a handler to the
  error middleware, so a handler ends in a response or in a failure. The exceptions are
  an \<^verbatim>\<open>Error\<close> with its message, the \<^verbatim>\<open>ValidationError\<close> of a rejected
  \<^verbatim>\<open>save\<close> or \<^verbatim>\<open>create\<close> with the paths that failed, and the duplicate key error
  of a unique index with the path of the index.
\<close>

datatype failure = AppError string nat | Thrown string | ValidationError "string list"
  | DuplicateKey string

text \<open>\<^verbatim>\<open>res.status(code).json({status: 'success', message, data})\<close>\<close>

record response =
  res_code :: nat
  res_message :: string
  res_payment :: "Payment option"
  res_authorizationUrl :: "string option"
  res_accessCode :: "string option"
  res_reference :: "string option"

text \<open>
  \<^verbatim>\<open>Payment.findOne(query)\<close>: the position of the first document the query
  matches, so that a later \<^verbatim>\<open>save\<close> writes that document back.
\<close>

fun findOne :: "('a \<Rightarrow> bool) \<Rightarrow> 'a list \<Rightarrow> nat option" where
  "findOne P [] = None"
| "findOne P (x # xs) = (if P x then Some 0 else map_option Suc (findOne P xs))"

text \<open>The write of an accepted payment: over the document at position \<open>i\<close>, or as a new one.\<close>

definition put_payment :: "nat \<Rightarrow> Payment \<Rightarrow> world \<Rightarrow> world" where
  "put_payment i p w =
     w\<lparr>payments := (payments w)[i := p], db_writes := db_writes w @ [PaymentSave (payment_id p)]\<rparr>"

definition add_payment :: "Payment \<Rightarrow> world \<Rightarrow> world" where
  "add_payment p w =
     w\<lparr>payments := payments w @ [p], db_writes := db_writes w @ [PaymentCreate (payment_id p)]\<rparr>"

text \<open>
  \<^verbatim>\<open>payment.save()\<close> on the document found at position \<open>i\<close>: the document is
  validated, all its paths, and written when no validator fails.
\<close>

definition save_payment :: "nat \<Rightarrow> Payment \<Rightarrow> world \<Rightarrow> failure + world" where
  "save_payment i p w =
     (if validate p = [] then Inr (put_payment i p w) else Inl (ValidationError (validate p)))"

text \<open>
  \<^verbatim>\<open>Payment.create(doc)\<close>: the document is validated, then inserted unless the unique
  index on \<^verbatim>\<open>reference\<close> already holds its reference.
\<close>

definition create_payment :: "Payment \<Rightarrow> world \<Rightarrow> failure + world" where
  "create_payment p w =
     (if validate p \<noteq> [] then Inl (ValidationError (validate p))
      else if reference p \<in> set (map reference (payments w)) then Inl (DuplicateKey ''reference'')
      else Inr (add_payment p w))"

text \<open>\<^verbatim>\<open>order.save()\<close> on the order found under \<open>oid\<close>.\<close>

definition save_order :: "objectId \<Rightarrow> Order \<Rightarrow> world \<Rightarrow> world" where
  "save_order oid ord w =
     w\<lparr>orders := (orders w)(oid \<mapsto> ord), db_writes := db_writes w @ [OrderSave oid]\<rparr>"

subsection \<open>The Paystack service\<close>

text \<open>
  The message of the TypeError raised by reading a property of \<^verbatim>\<open>undefined\<close>;
  the property is printed between single quotes.
\<close>

definition TypeError :: "string \<Rightarrow> string" where
  "TypeError property =
     ''Cannot read properties of undefined (reading '' @ [CHR 0x27] @ property @ [CHR 0x27] @ '')''"

text \<open>
  \<^verbatim>\<open>initializeTransaction\<close>: the amount goes out as \<^verbatim>\<open>Math.round(amount * 100)\<close>;
  a rejected call is logged and thrown again.
\<close>

definition transaction_params ::
  "string \<Rightarrow> rat \<Rightarrow> string \<Rightarrow> string \<Rightarrow> (string \<rightharpoonup> string) \<Rightarrow> string option
    \<Rightarrow> initialize_params" where
  "transaction_params email amt ref cur meta callback_url =
     \<lparr>init_email = email, init_amount = Math_round (times_number amt 100),
      init_reference = ref, init_currency = cur, init_metadata = meta,
      init_callback_url = callback_url\<rparr>"

definition initializeTransaction ::
  "gateway \<Rightarrow> string \<Rightarrow> rat \<Rightarrow> string \<Rightarrow> string \<Rightarrow> (string \<rightharpoonup> string) \<Rightarrow> string option
    \<Rightarrow> world \<Rightarrow> world \<times> (failure + paystack_response)" where
  "initializeTransaction gw email amt ref cur meta callback_url w =
     (let ps = transaction_params email amt ref cur meta callback_url;
          w1 = w\<lparr>gateway_calls := gateway_calls w @ [TransactionInitialize ps]\<rparr>
      in case transaction_initialize gw ps of
           Resolves response \<Rightarrow> (logger (Info (''Payment initialized: '' @ ref)) w1, Inr response)
         | Rejects m \<Rightarrow>
             (logger (Err (''Paystack initialization error: '' @ m)) w1,
              Inl (Thrown (''Payment initialization failed: '' @ m))))"

text \<open>
  \<^verbatim>\<open>verifyTransaction\<close>: the log line reads \<^verbatim>\<open>response.data.status\<close> inside the
  \<^verbatim>\<open>try\<close>, so a response without \<^verbatim>\<open>data\<close> ends in the \<^verbatim>\<open>catch\<close> too.
\<close>

definition verifyTransaction ::
  "gateway \<Rightarrow> string \<Rightarrow> world \<Rightarrow> world \<times> (failure + paystack_response)" where
  "verifyTransaction gw ref w =
     (let w1 = w\<lparr>gateway_calls := gateway_calls w @ [TransactionVerify ref]\<rparr>;
          caught = (\<lambda>m. (logger (Err (''Paystack verification error: '' @ m)) w1,
                          Inl (Thrown (''Payment verification failed: '' @ m))))
      in case transaction_verify gw ref of
           Resolves response \<Rightarrow>
             (case response_data response of
                Some d \<Rightarrow>
                  (logger (Info (''Payment verified: '' @ ref @ '' - Status: '' @ str (data_status d))) w1,
                   Inr response)
              | None \<Rightarrow> caught (TypeError ''status''))
         | Rejects m \<Rightarrow> caught m)"

text \<open>The request body of a webhook, after \<^verbatim>\<open>validateWebhook\<close> has checked its shape.\<close>

record webhook_body =
  body_event :: string
  body_data :: paystackData

record env =
  PAYSTACK_WEBHOOK_SECRET :: "string option"
  PAYSTACK_SECRET_KEY :: "string option"

text \<open>
  The functions of the platform the code calls, as parameters: the hex digest of the
  HMAC-SHA512 of a message under a key, \<^verbatim>\<open>JSON.stringify\<close> of a webhook body, and
  \<^verbatim>\<open>Date.parse\<close>, which gives the time value of a string or \<^verbatim>\<open>NaN\<close>.
\<close>

record library =
  hmac_sha512_hex :: "string \<Rightarrow> string \<Rightarrow> string"
  JSON_stringify :: "webhook_body \<Rightarrow> string"
  Date_parse :: "string \<Rightarrow> int option"

text \<open>\<^verbatim>\<open>new Date(v)\<close> for a string or \<^verbatim>\<open>undefined\<close>, which gives an Invalid Date.\<close>

definition new_Date :: "library \<Rightarrow> string option \<Rightarrow> date" where
  "new_Date lib v = (case v of None \<Rightarrow> Date None | Some s \<Rightarrow> Date (Date_parse lib s))"

text \<open>\<^verbatim>\<open>process.env.PAYSTACK_WEBHOOK_SECRET || process.env.PAYSTACK_SECRET_KEY\<close>\<close>

definition secret :: "env \<Rightarrow> string option" where
  "secret e = (case PAYSTACK_WEBHOOK_SECRET e of
                 Some s \<Rightarrow> if s = [] then PAYSTACK_SECRET_KEY e else Some s
               | None \<Rightarrow> PAYSTACK_SECRET_KEY e)"

text \<open>
  \<^verbatim>\<open>validateWebhookSignature\<close>: \<^verbatim>\<open>createHmac\<close> throws on a key that is
  \<^verbatim>\<open>undefined\<close>; otherwise the digest is compared with the header by \<^verbatim>\<open>===\<close>,
  which a missing header never passes.
\<close>

definition validateWebhookSignature ::
  "library \<Rightarrow> env \<Rightarrow> string option \<Rightarrow> webhook_body \<Rightarrow> failure + bool" where
  "validateWebhookSignature lib e signature body =
     (case secret e of
        None \<Rightarrow>
          Inl (Thrown (''The '' @ [CHR 0x22] @ ''key'' @ [CHR 0x22] @
                 '' argument must be of type string or an instance of ArrayBuffer, Buffer, '' @
                 ''TypedArray, DataView, KeyObject, or CryptoKey. Received undefined''))
      | Some k \<Rightarrow> Inr (Some (hmac_sha512_hex lib k (JSON_stringify lib body)) = signature))"

subsection \<open>The payment controller\<close>

record initialize_request =
  req_orderId :: objectId
  req_email :: "string option"
  req_currency :: "string option"
  req_metadata :: "string \<rightharpoonup> string"
  req_callback_url :: "string option"

definition json :: "nat \<Rightarrow> string \<Rightarrow> Payment option \<Rightarrow> response" where
  "json code msg p =
     \<lparr>res_code = code, res_message = msg, res_payment = p, res_authorizationUrl = None,
      res_accessCode = None, res_reference = None\<rparr>"

text \<open>The reference \<^verbatim>\<open>`ORDER-${orderId}-${Date.now()}`\<close>.\<close>

definition generate_reference :: "objectId \<Rightarrow> nat \<Rightarrow> string" where
  "generate_reference oid now = ''ORDER-'' @ oid @ ''-'' @ decimal now"

text \<open>The metadata sent to the gateway, and the metadata stored on the payment.\<close>

definition gateway_metadata :: "User \<Rightarrow> initialize_request \<Rightarrow> string \<rightharpoonup> string" where
  "gateway_metadata usr rq =
     [''orderId'' \<mapsto> req_orderId rq, ''userId'' \<mapsto> user_id usr,
      ''userName'' \<mapsto> user_name usr] ++ req_metadata rq"

definition payment_metadata :: "User \<Rightarrow> initialize_request \<Rightarrow> string \<rightharpoonup> string" where
  "payment_metadata usr rq =
     [''orderId'' \<mapsto> req_orderId rq, ''userId'' \<mapsto> user_id usr] ++ req_metadata rq"

text \<open>
  The document \<^verbatim>\<open>initializePayment\<close> hands to \<^verbatim>\<open>Payment.create\<close>, as the strict
  schema takes it: \<^verbatim>\<open>paystackData\<close> loses the authorization URL and the access code.
\<close>

definition pending_payment ::
  "objectId \<Rightarrow> User \<Rightarrow> initialize_request \<Rightarrow> Order \<Rightarrow> string \<Rightarrow> paystackData \<Rightarrow> Payment" where
  "pending_payment fresh usr rq ord ref d =
     \<lparr>payment_id = fresh, user = user_id usr, order = req_orderId rq, reference = ref,
      amount = totalPrice ord, currency = js_or (req_currency rq) ''NGN'', status = pending,
      paymentMethod = None, channel = None, gatewayResponse = None, paidAt = None,
      paystackData = strict d, metadata = payment_metadata usr rq\<rparr>"

text \<open>The 200 response for a payment already pending, and the 201 response.\<close>

definition already_initialized :: "Payment \<Rightarrow> response" where
  "already_initialized existingPayment =
     (json 200 ''Payment already initialized'' (Some existingPayment))
       \<lparr>res_authorizationUrl := data_authorization_url (paystackData existingPayment),
        res_reference := Some (reference existingPayment)\<rparr>"

definition initialized :: "Payment \<Rightarrow> paystackData \<Rightarrow> string \<Rightarrow> response" where
  "initialized payment d ref =
     (json 201 ''Payment initialized successfully'' (Some payment))
       \<lparr>res_authorizationUrl := data_authorization_url d,
        res_accessCode := data_access_code d, res_reference := Some ref\<rparr>"

text \<open>
  \<^verbatim>\<open>initializePayment\<close>. \<open>now\<close> is \<^verbatim>\<open>Date.now()\<close> and \<open>fresh\<close> the
  \<^verbatim>\<open>_id\<close> the created document gets. A rejected \<^verbatim>\<open>Payment.create\<close> throws, after
  the gateway has been called.
\<close>

definition initializePayment ::
  "gateway \<Rightarrow> nat \<Rightarrow> objectId \<Rightarrow> User \<Rightarrow> initialize_request \<Rightarrow> world
    \<Rightarrow> world \<times> (failure + response)" where
  "initializePayment gw now fresh usr rq w =
     (case orders w (req_orderId rq) of
        None \<Rightarrow> (w, Inl (AppError ''Order not found'' 404))
      | Some ord \<Rightarrow>
          if order_user ord \<noteq> user_id usr
          then (w, Inl (AppError ''Not authorized to pay for this order'' 403))
          else if isPaid ord then (w, Inl (AppError ''Order is already paid'' 400))
          else
            (case findOne (\<lambda>p. order p = req_orderId rq \<and> (status p = pending \<or> status p = success))
                    (payments w) of
               Some i \<Rightarrow>
                 let existingPayment = payments w ! i
                 in if status existingPayment = success
                    then (w, Inl (AppError ''Payment already completed for this order'' 400))
                    else (w, Inr (already_initialized existingPayment))
             | None \<Rightarrow>
                 let ref = generate_reference (req_orderId rq) now
                 in (case initializeTransaction gw (js_or (req_email rq) (user_email usr))
                            (totalPrice ord) ref (js_or (req_currency rq) ''NGN'')
                            (gateway_metadata usr rq) (req_callback_url rq) w of
                       (w1, Inl thrown) \<Rightarrow> (w1, Inl thrown)
                     | (w1, Inr paystackResponse) \<Rightarrow>
                         if \<not> response_status paystackResponse
                         then (w1, Inl (AppError ''Failed to initialize payment'' 500))
                         else
                           (case response_data paystackResponse of
                              None \<Rightarrow> (w1, Inl (Thrown (TypeError ''authorization_url'')))
                            | Some d \<Rightarrow>
                                let payment = pending_payment fresh usr rq ord ref d
                                in (case create_payment payment w1 of
                                      Inl rejected \<Rightarrow> (w1, Inl rejected)
                                    | Inr w2 \<Rightarrow> (w2, Inr (initialized payment d ref)))))))"

text \<open>What \<^verbatim>\<open>verifyPayment\<close> and \<^verbatim>\<open>handleSuccessfulCharge\<close> write on the order.\<close>

definition mark_paid :: "library \<Rightarrow> string \<Rightarrow> paystackData \<Rightarrow> Order \<Rightarrow> Order" where
  "mark_paid lib ref d ord =
     ord\<lparr>isPaid := True, order_paidAt := Some (new_Date lib (data_paid_at d)),
         order_paymentMethod := Some ''paystack'', paystackReference := Some ref,
         order_paymentResult :=
           Some \<lparr>result_id = data_id d, result_status = data_status d,
                 updateTime = data_paid_at d, emailAddress = data_customer_email d\<rparr>\<rparr>"

text \<open>
  What \<^verbatim>\<open>verifyPayment\<close> assigns to the payment it found, before the date: the status
  the verdict maps to, the data (strictly), the gateway's message, and the channel, which
  is also assigned to \<^verbatim>\<open>paymentMethod\<close>.
\<close>

definition verified :: "paystackData \<Rightarrow> Payment \<Rightarrow> Payment" where
  "verified d payment =
     payment\<lparr>status := (if data_status d = Some ''success'' then success else failed),
             paystackData := strict d,
             gatewayResponse := data_gateway_response d,
             channel := data_channel d,
             paymentMethod := data_channel d\<rparr>"

text \<open>
  \<^verbatim>\<open>verifyPayment\<close>: only a payment already \<^verbatim>\<open>success\<close> is returned as it is;
  any other is verified with the gateway. The order is saved before the payment, so a
  payment the schema rejects leaves the order saved.
\<close>

definition verifyPayment ::
  "library \<Rightarrow> gateway \<Rightarrow> User \<Rightarrow> string \<Rightarrow> world \<Rightarrow> world \<times> (failure + response)" where
  "verifyPayment lib gw usr ref w =
     (case findOne (\<lambda>p. reference p = ref) (payments w) of
        None \<Rightarrow> (w, Inl (AppError ''Payment not found'' 404))
      | Some i \<Rightarrow>
          let payment = payments w ! i
          in if user payment \<noteq> user_id usr
             then (w, Inl (AppError ''Not authorized to verify this payment'' 403))
             else if status payment = success
             then (w, Inr (json 200 ''Payment already verified'' (Some payment)))
             else
               (case verifyTransaction gw ref w of
                  (w1, Inl e) \<Rightarrow> (w1, Inl e)
                | (w1, Inr verificationResponse) \<Rightarrow>
                    if \<not> response_status verificationResponse
                    then (w1, Inl (AppError ''Payment verification failed'' 500))
                    else
                      (case response_data verificationResponse of
                         None \<Rightarrow> (w1, Inl (Thrown (TypeError ''status'')))
                       | Some d \<Rightarrow>
                           let p1 = verified d payment;
                               p2 = (if data_status d = Some ''success''
                                     then p1\<lparr>paidAt := Some (new_Date lib (data_paid_at d))\<rparr>
                                     else p1);
                               w2 = (if data_status d = Some ''success''
                                     then (case orders w1 (order payment) of
                                             Some ord \<Rightarrow>
                                               save_order (order payment) (mark_paid lib ref d ord) w1
                                           | None \<Rightarrow> w1)
                                     else w1)
                           in (case save_payment i p2 w2 of
                                 Inl rejected \<Rightarrow> (w2, Inl rejected)
                               | Inr w3 \<Rightarrow>
                                   (w3, Inr (json 200 (''Payment '' @ status_str (status p2))
                                               (Some p2)))))))"

text \<open>What \<^verbatim>\<open>handleSuccessfulCharge\<close> assigns to the payment it found.\<close>

definition charged :: "library \<Rightarrow> paystackData \<Rightarrow> Payment \<Rightarrow> Payment" where
  "charged lib d payment =
     payment\<lparr>status := success, paystackData := strict d,
             gatewayResponse := data_gateway_response d, channel := data_channel d,
             paymentMethod := data_channel d, paidAt := Some (new_Date lib (data_paid_at d))\<rparr>"

text \<open>
  \<^verbatim>\<open>handleSuccessfulCharge\<close>: the payment is written whatever its status was, and
  before the order. A rejected \<^verbatim>\<open>save\<close> throws, and nothing has been written then.
\<close>

definition handleSuccessfulCharge :: "library \<Rightarrow> paystackData \<Rightarrow> world \<Rightarrow> failure + world" where
  "handleSuccessfulCharge lib d w =
     (case findOne (\<lambda>p. Some (reference p) = data_reference d) (payments w) of
        None \<Rightarrow> Inr (logger (Warn (''Payment not found for reference: '' @ str (data_reference d))) w)
      | Some i \<Rightarrow>
          let payment = charged lib d (payments w ! i)
          in (case save_payment i payment w of
                Inl rejected \<Rightarrow> Inl rejected
              | Inr w1 \<Rightarrow>
                  (case orders w1 (order payment) of
                     Some ord \<Rightarrow>
                       if \<not> isPaid ord
                       then Inr (logger (Info (''Order '' @ order payment @ '' marked as paid via webhook''))
                                  (save_order (order payment)
                                     (mark_paid lib (str (data_reference d)) d ord) w1))
                       else Inr w1
                   | None \<Rightarrow> Inr w1)))"

text \<open>What \<^verbatim>\<open>handleFailedCharge\<close> assigns to the payment it found.\<close>

definition declined :: "paystackData \<Rightarrow> Payment \<Rightarrow> Payment" where
  "declined d payment =
     payment\<lparr>status := failed, paystackData := strict d,
             gatewayResponse := data_gateway_response d\<rparr>"

text \<open>\<^verbatim>\<open>handleFailedCharge\<close>: only the payment is written.\<close>

definition handleFailedCharge :: "paystackData \<Rightarrow> world \<Rightarrow> failure + world" where
  "handleFailedCharge d w =
     (case findOne (\<lambda>p. Some (reference p) = data_reference d) (payments w) of
        None \<Rightarrow> Inr (logger (Warn (''Payment not found for reference: '' @ str (data_reference d))) w)
      | Some i \<Rightarrow>
          let payment = declined d (payments w ! i)
          in (case save_payment i payment w of
                Inl rejected \<Rightarrow> Inl rejected
              | Inr w1 \<Rightarrow>
                  Inr (logger (Info (''Payment '' @ payment_id payment @ '' marked as failed via webhook''))
                         w1)))"

text \<open>
  \<^verbatim>\<open>handleWebhook\<close>: the signature is checked first; after it every branch of the
  \<^verbatim>\<open>switch\<close> that returns reaches the 200 response, and an exception thrown by one
  of the two charge handlers goes to the error middleware instead.
\<close>

definition handleWebhook ::
  "library \<Rightarrow> env \<Rightarrow> string option \<Rightarrow> webhook_body \<Rightarrow> world \<Rightarrow> world \<times> (failure + response)" where
  "handleWebhook lib e signature body w =
     (case validateWebhookSignature lib e signature body of
        Inl thrown \<Rightarrow> (w, Inl thrown)
      | Inr valid \<Rightarrow>
          if \<not> valid
          then (logger (Warn ''Invalid webhook signature received'') w,
                Inl (AppError ''Invalid signature'' 400))
          else
            let ev = body_event body; d = body_data body;
                w1 = logger (Info (''Webhook received: '' @ ev @ '' - Reference: ''
                                    @ str (data_reference d))) w;
                handled = (if ev = ''charge.success'' then handleSuccessfulCharge lib d w1
                           else if ev = ''charge.failed'' then handleFailedCharge d w1
                           else if ev = ''transfer.success'' \<or> ev = ''transfer.failed''
                           then Inr (logger (Info (''Transfer event received: '' @ ev)) w1)
                           else Inr (logger (Info (''Unhandled webhook event: '' @ ev)) w1))
            in (case handled of
                  Inl thrown \<Rightarrow> (w1, Inl thrown)
                | Inr w2 \<Rightarrow> (w2, Inr (json 200 ''Webhook processed'' None))))"

section \<open>Resolutions\<close>

text \<open>
  A verdict reaches the ledger through \<^verbatim>\<open>verifyPayment\<close> (polling: the verdict is
  what the gateway answers) or through \<^verbatim>\<open>handleWebhook\<close> (the verdict is the event
  and its data). \<open>resolve\<close> is the world after one such request for a reference.
\<close>

datatype request = Poll gateway User | Hook "string option" webhook_body

fun resolve :: "library \<Rightarrow> env \<Rightarrow> string \<Rightarrow> request \<Rightarrow> world \<Rightarrow> world" where
  "resolve lib e ref (Poll gw usr) w = fst (verifyPayment lib gw usr ref w)"
| "resolve lib e ref (Hook signature body) w = fst (handleWebhook lib e signature body w)"

text \<open>The data a resolution applies, when it carries any.\<close>

fun verdict :: "string \<Rightarrow> request \<Rightarrow> paystackData option" where
  "verdict ref (Poll gw usr) =
     (case transaction_verify gw ref of
        Resolves r \<Rightarrow> if response_status r then response_data r else None
      | Rejects m \<Rightarrow> None)"
| "verdict ref (Hook signature body) = Some (body_data body)"

text \<open>
  A resolution with a success verdict: the owner polls and the gateway reports
  \<^verbatim>\<open>success\<close>, or a signed \<^verbatim>\<open>charge.success\<close> event names the reference.
\<close>

fun success_verdict :: "library \<Rightarrow> env \<Rightarrow> string \<Rightarrow> objectId \<Rightarrow> request \<Rightarrow> bool" where
  "success_verdict lib e ref owner (Poll gw usr) =
     (user_id usr = owner \<and>
      (case verdict ref (Poll gw usr) of Some d \<Rightarrow> data_status d = Some ''success'' | None \<Rightarrow> False))"
| "success_verdict lib e ref owner (Hook signature body) =
     (validateWebhookSignature lib e signature body = Inr True \<and>
      body_event body = ''charge.success'' \<and> data_reference (body_data body) = Some ref)"

text \<open>
  A resolution whose verdict maps to failed: the gateway answers a poll with a status that
  is not \<^verbatim>\<open>success\<close>, or a signed \<^verbatim>\<open>charge.failed\<close> event arrives.
\<close>

fun failed_verdict :: "library \<Rightarrow> env \<Rightarrow> string \<Rightarrow> request \<Rightarrow> bool" where
  "failed_verdict lib e ref (Poll gw usr) =
     (case verdict ref (Poll gw usr) of Some d \<Rightarrow> data_status d \<noteq> Some ''success'' | None \<Rightarrow> False)"
| "failed_verdict lib e ref (Hook signature body) =
     (validateWebhookSignature lib e signature body = Inr True \<and> body_event body = ''charge.failed'')"

text \<open>
  Data of a success verdict that the Payment schema accepts on a payment: the channel is
  missing or one of the payment methods of the enum, and \<^verbatim>\<open>paid_at\<close> is a string
  that denotes a date.
\<close>

definition schema_accepts :: "library \<Rightarrow> paystackData \<Rightarrow> bool" where
  "schema_accepts lib d \<longleftrightarrow>
     (case data_channel d of None \<Rightarrow> True | Some c \<Rightarrow> c \<in> set paymentMethod_enum) \<and>
     new_Date lib (data_paid_at d) \<noteq> Date None"

definition accepted :: "library \<Rightarrow> string \<Rightarrow> request \<Rightarrow> bool" where
  "accepted lib ref r \<longleftrightarrow> (case verdict ref r of Some d \<Rightarrow> schema_accepts lib d | None \<Rightarrow> False)"

text \<open>A run of resolutions for one reference, one request after the other.\<close>

fun run :: "library \<Rightarrow> env \<Rightarrow> string \<Rightarrow> request list \<Rightarrow> world \<Rightarrow> world" where
  "run lib e ref [] w = w"
| "run lib e ref (r # rs) w = run lib e ref rs (resolve lib e ref r w)"

text \<open>The stored status of the payment a reference finds.\<close>

definition status_of :: "string \<Rightarrow> world \<Rightarrow> payment_status option" where
  "status_of ref w =
     map_option (\<lambda>i. status (payments w ! i)) (findOne (\<lambda>p. reference p = ref) (payments w))"

text \<open>How many requests of a run take the payment from \<^verbatim>\<open>pending\<close> to \<^verbatim>\<open>success\<close>.\<close>

fun transitions :: "library \<Rightarrow> env \<Rightarrow> string \<Rightarrow> request list \<Rightarrow> world \<Rightarrow> nat" where
  "transitions lib e ref [] w = 0"
| "transitions lib e ref (r # rs) w =
     (if status_of ref w = Some pending \<and> status_of ref (resolve lib e ref r w) = Some success
      then 1 else 0) + transitions lib e ref rs (resolve lib e ref r w)"

text \<open>How many times an order has been saved.\<close>

definition order_saves :: "objectId \<Rightarrow> world \<Rightarrow> nat" where
  "order_saves oid w = length (filter (\<lambda>x. x = OrderSave oid) (db_writes w))"

text \<open>An order that a success resolution has nothing to write on: it is missing, or paid.\<close>

definition settled :: "objectId \<Rightarrow> world \<Rightarrow> bool" where
  "settled oid w \<longleftrightarrow> (case orders w oid of Some ord \<Rightarrow> isPaid ord | None \<Rightarrow> True)"

text \<open>The facts a resolution keeps: where the reference is found, whose the payment is and
  which order it pays.\<close>

definition same_row :: "string \<Rightarrow> nat \<Rightarrow> world \<Rightarrow> world \<Rightarrow> bool" where
  "same_row ref i w w' \<longleftrightarrow>
     findOne (\<lambda>p. reference p = ref) (payments w') = Some i \<and>
     user (payments w' ! i) = user (payments w ! i) \<and>
     order (payments w' ! i) = order (payments w ! i)"

text \<open>The world after the gateway was asked to verify a reference and a line was logged.\<close>

definition asked :: "string \<Rightarrow> log_line \<Rightarrow> world \<Rightarrow> world" where
  "asked ref l w = logger l (w\<lparr>gateway_calls := gateway_calls w @ [TransactionVerify ref]\<rparr>)"

section \<open>Initialization\<close>

text \<open>A payment that blocks a new initialization for an order: pending or successful.\<close>

definition active :: "objectId \<Rightarrow> Payment \<Rightarrow> bool" where
  "active oid p \<longleftrightarrow> order p = oid \<and> (status p = pending \<or> status p = success)"

text \<open>The request \<^verbatim>\<open>initializePayment\<close> sends to the gateway for an order.\<close>

definition charge_request :: "nat \<Rightarrow> User \<Rightarrow> initialize_request \<Rightarrow> Order \<Rightarrow> initialize_params" where
  "charge_request now usr rq ord =
     transaction_params (js_or (req_email rq) (user_email usr)) (totalPrice ord)
       (generate_reference (req_orderId rq) now) (js_or (req_currency rq) ''NGN'')
       (gateway_metadata usr rq) (req_callback_url rq)"

text \<open>The gateway step fails: the call rejects, or the response's status is false.\<close>

fun gateway_failed :: "promise \<Rightarrow> bool" where
  "gateway_failed (Rejects m) = True"
| "gateway_failed (Resolves r) = (\<not> response_status r)"

text \<open>The world after the gateway was called with a request and a line was logged.\<close>

definition called :: "initialize_params \<Rightarrow> log_line \<Rightarrow> world \<Rightarrow> world" where
  "called ps l w = logger l (w\<lparr>gateway_calls := gateway_calls w @ [TransactionInitialize ps]\<rparr>)"

text \<open>The payments of the ledger that are for an order.\<close>

definition rows :: "objectId \<Rightarrow> world \<Rightarrow> Payment list" where
  "rows oid w = filter (\<lambda>p. order p = oid) (payments w)"

section \<open>Reachable states\<close>

text \<open>Every successful payment of an order that exists belongs to an order flagged paid.\<close>

definition paid_mirror :: "world \<Rightarrow> bool" where
  "paid_mirror w \<longleftrightarrow>
     (\<forall>p\<in>set (payments w). status p = success \<longrightarrow>
        (case orders w (order p) of Some ord \<Rightarrow> isPaid ord | None \<Rightarrow> True))"

section \<open>Example data\<close>

text \<open>
  An order \<^verbatim>\<open>O1\<close> of user \<^verbatim>\<open>U1\<close> with total 5000 and a ledger with one
  payment for it, pending, failed or successful; gateways that answer with given data or
  reject every call; and stand-ins for the digest, the serialization and the parsing of
  dates, enough to sign a body and to read the one date of the examples.
\<close>

definition no_data :: paystackData where
  "no_data = \<lparr>data_id = None, data_status = None, data_reference = None,
     data_gateway_response = None, data_channel = None, data_paid_at = None,
     data_customer_email = None, data_authorization_url = None, data_access_code = None\<rparr>"

definition ex_order :: Order where
  "ex_order = \<lparr>order_user = ''U1'', totalPrice = 5000, isPaid = False, order_paidAt = None,
     order_paymentMethod = None, paystackReference = None, order_paymentResult = None\<rparr>"

definition ex_payment :: Payment where
  "ex_payment = \<lparr>payment_id = ''P1'', user = ''U1'', order = ''O1'', reference = ''ORDER-O1-1'',
     amount = 5000, currency = ''NGN'', status = pending, paymentMethod = None, channel = None,
     gatewayResponse = None, paidAt = None, paystackData = no_data, metadata = Map.empty\<rparr>"

definition ex_world :: world where
  "ex_world = \<lparr>orders = [''O1'' \<mapsto> ex_order], payments = [ex_payment], db_writes = [],
     gateway_calls = [], logged = []\<rparr>"

definition ex_user :: User where
  "ex_user = \<lparr>user_id = ''U1'', user_email = ''a@b.com'', user_name = ''A''\<rparr>"

definition ex_success :: paystackData where
  "ex_success = no_data\<lparr>data_status := Some ''success'', data_reference := Some ''ORDER-O1-1'',
     data_channel := Some ''card'', data_paid_at := Some ''2024-01-01T00:00:00Z''\<rparr>"

text \<open>The same verdict for a payment by Apple Pay, a channel of the gateway.\<close>

definition ex_apple_pay :: paystackData where
  "ex_apple_pay = ex_success\<lparr>data_channel := Some ''apple_pay''\<rparr>"

definition ex_gateway :: "paystackData \<Rightarrow> gateway" where
  "ex_gateway d = \<lparr>transaction_initialize =
       (\<lambda>ps. Resolves \<lparr>response_status = True, response_data = Some d\<rparr>),
     transaction_verify = (\<lambda>ref. Resolves \<lparr>response_status = True, response_data = Some d\<rparr>)\<rparr>"

definition ex_library :: library where
  "ex_library = \<lparr>hmac_sha512_hex = (\<lambda>k m. k @ m), JSON_stringify = body_event,
     Date_parse = (\<lambda>s. if s = ''2024-01-01T00:00:00Z'' then Some 1704067200000 else None)\<rparr>"

definition ex_env :: env where
  "ex_env = \<lparr>PAYSTACK_WEBHOOK_SECRET = None, PAYSTACK_SECRET_KEY = Some ''sk_''\<rparr>"

definition ex_hook :: "string \<Rightarrow> paystackData \<Rightarrow> request" where
  "ex_hook ev d = Hook (Some (''sk_'' @ ev)) \<lparr>body_event = ev, body_data = d\<rparr>"

definition ex_failed_world :: world where
  "ex_failed_world = ex_world\<lparr>payments := [ex_payment\<lparr>status := failed\<rparr>]\<rparr>"

definition ex_paid_world :: world where
  "ex_paid_world = ex_world\<lparr>payments := [ex_payment\<lparr>status := success\<rparr>]\<rparr>"

definition ex_new_world :: world where
  "ex_new_world = ex_world\<lparr>payments := []\<rparr>"

definition ex_other :: User where
  "ex_other = \<lparr>user_id = ''U2'', user_email = ''c@d.com'', user_name = ''C''\<rparr>"

definition ex_request :: initialize_request where
  "ex_request = \<lparr>req_orderId = ''O1'', req_email = Some ''a@b.com'', req_currency = None,
     req_metadata = Map.empty, req_callback_url = None\<rparr>"

definition ex_failure :: paystackData where
  "ex_failure = no_data\<lparr>data_status := Some ''failed'', data_reference := Some ''ORDER-O1-1''\<rparr>"

definition ex_unknown :: paystackData where
  "ex_unknown = no_data\<lparr>data_status := Some ''success'', data_reference := Some ''ORDER-O9-9''\<rparr>"

definition ex_down :: gateway where
  "ex_down = \<lparr>transaction_initialize = (\<lambda>ps. Rejects ''timeout''),
     transaction_verify = (\<lambda>ref. Rejects ''timeout'')\<rparr>"

section \<open>Properties\<close>

lemma findOne_SomeD: "findOne P xs = Some i \<Longrightarrow> i < length xs \<and> P (xs ! i)"
  by (induction xs arbitrary: i) (auto split: if_splits)

lemma findOne_update:
  "(i < length xs \<Longrightarrow> P y = P (xs ! i)) \<Longrightarrow> findOne P (xs[i := y]) = findOne P xs"
proof (induction xs arbitrary: i)
  case Nil
  then show ?case by simp
next
  case (Cons x xs)
  then show ?case by (cases i) auto
qed

lemma findOne_None_iff: "findOne P xs = None \<longleftrightarrow> (\<forall>x\<in>set xs. \<not> P x)"
  by (induction xs) auto

lemma findOne_snoc: "findOne P xs = None \<Longrightarrow> P y \<Longrightarrow> findOne P (xs @ [y]) = Some (length xs)"
  by (induction xs) (auto split: if_splits)

lemmas ex_defs = no_data_def ex_order_def ex_payment_def ex_world_def ex_user_def ex_success_def
  ex_apple_pay_def ex_gateway_def ex_library_def ex_env_def ex_hook_def ex_failed_world_def
  ex_paid_world_def ex_new_world_def ex_other_def ex_request_def ex_failure_def ex_unknown_def
  ex_down_def

subsection \<open>What the writes change\<close>

lemma logger_frame [simp]:
  "payments (logger l w) = payments w" "orders (logger l w) = orders w"
  "db_writes (logger l w) = db_writes w" "gateway_calls (logger l w) = gateway_calls w"
  by (simp_all add: logger_def)

lemma called_frame [simp]:
  "payments (called ps l w) = payments w" "orders (called ps l w) = orders w"
  "db_writes (called ps l w) = db_writes w"
  "gateway_calls (called ps l w) = gateway_calls w @ [TransactionInitialize ps]"
  by (simp_all add: called_def logger_def)

lemma asked_frame [simp]:
  "payments (asked ref l w) = payments w" "orders (asked ref l w) = orders w"
  "db_writes (asked ref l w) = db_writes w"
  "gateway_calls (asked ref l w) = gateway_calls w @ [TransactionVerify ref]"
  by (simp_all add: asked_def logger_def)

lemma put_payment_frame [simp]:
  "payments (put_payment i p w) = (payments w)[i := p]" "orders (put_payment i p w) = orders w"
  "db_writes (put_payment i p w) = db_writes w @ [PaymentSave (payment_id p)]"
  "gateway_calls (put_payment i p w) = gateway_calls w"
  by (simp_all add: put_payment_def)

lemma add_payment_frame [simp]:
  "payments (add_payment p w) = payments w @ [p]" "orders (add_payment p w) = orders w"
  "db_writes (add_payment p w) = db_writes w @ [PaymentCreate (payment_id p)]"
  "gateway_calls (add_payment p w) = gateway_calls w"
  by (simp_all add: add_payment_def)

lemma save_order_frame [simp]:
  "payments (save_order oid ord w) = payments w"
  "orders (save_order oid ord w) = (orders w)(oid \<mapsto> ord)"
  "db_writes (save_order oid ord w) = db_writes w @ [OrderSave oid]"
  "gateway_calls (save_order oid ord w) = gateway_calls w"
  by (simp_all add: save_order_def)

lemma save_payment_cases:
  obtains (rejected) "validate p \<noteq> []" "save_payment i p w = Inl (ValidationError (validate p))"
  | (saved) "validate p = []" "save_payment i p w = Inr (put_payment i p w)"
  by (cases "validate p = []") (simp_all add: save_payment_def)

text \<open>The fields an assignment of a verdict keeps, and the documents the schema accepts.\<close>

lemma verified_keeps [simp]:
  "user (verified d p) = user p" "order (verified d p) = order p"
  "reference (verified d p) = reference p" "amount (verified d p) = amount p"
  "payment_id (verified d p) = payment_id p"
  "status (verified d p) = (if data_status d = Some ''success'' then success else failed)"
  by (simp_all add: verified_def)

lemma charged_keeps [simp]:
  "user (charged lib d p) = user p" "order (charged lib d p) = order p"
  "reference (charged lib d p) = reference p" "amount (charged lib d p) = amount p"
  "payment_id (charged lib d p) = payment_id p" "status (charged lib d p) = success"
  by (simp_all add: charged_def)

lemma declined_keeps [simp]:
  "user (declined d p) = user p" "order (declined d p) = order p"
  "reference (declined d p) = reference p" "amount (declined d p) = amount p"
  "payment_id (declined d p) = payment_id p" "status (declined d p) = failed"
  by (simp_all add: declined_def)

lemma verified_success:
  "data_status d = Some ''success'' \<Longrightarrow>
   (verified d p)\<lparr>paidAt := Some (new_Date lib (data_paid_at d))\<rparr> = charged lib d p"
  by (simp add: verified_def charged_def)

lemma validate_charged:
  "validate p = [] \<Longrightarrow> schema_accepts lib d \<Longrightarrow> validate (charged lib d p) = []"
  by (auto simp: validate_def charged_def schema_accepts_def split: option.splits if_splits)

lemma validate_charged_iff:
  "validate (charged lib d p) = [] \<longleftrightarrow>
     reference p \<noteq> [] \<and> 0 \<le> amount p \<and> currency p \<in> set currency_enum \<and> schema_accepts lib d"
  by (auto simp: validate_def charged_def schema_accepts_def split: option.splits if_splits)

subsection \<open>The branches of the handlers\<close>

lemma verdict_Poll:
  "verdict ref (Poll gw usr) = Some d \<longleftrightarrow>
     (\<exists>r. transaction_verify gw ref = Resolves r \<and> response_status r \<and> response_data r = Some d)"
  by (auto split: promise.splits)

lemma verifyPayment_unanswered:
  assumes "findOne (\<lambda>p. reference p = ref) (payments w) = Some i"
    and "user (payments w ! i) = user_id usr" and "status (payments w ! i) \<noteq> success"
    and "verdict ref (Poll gw usr) = None"
  shows "\<exists>l err. verifyPayment lib gw usr ref w = (asked ref l w, Inl err)"
proof (cases "transaction_verify gw ref")
  case (Rejects m)
  with assms have "verifyPayment lib gw usr ref w =
      (asked ref (Err (''Paystack verification error: '' @ m)) w,
       Inl (Thrown (''Payment verification failed: '' @ m)))"
    by (simp add: verifyPayment_def verifyTransaction_def Let_def asked_def)
  then show ?thesis by blast
next
  case (Resolves r)
  show ?thesis
  proof (cases "response_data r")
    case None
    with Resolves assms have "verifyPayment lib gw usr ref w =
      (asked ref (Err (''Paystack verification error: '' @ TypeError ''status'')) w,
       Inl (Thrown (''Payment verification failed: '' @ TypeError ''status'')))"
      by (simp add: verifyPayment_def verifyTransaction_def Let_def asked_def)
    then show ?thesis by blast
  next
    case (Some d)
    with Resolves assms(4) have "\<not> response_status r" by (auto split: if_splits)
    with Some Resolves assms have "verifyPayment lib gw usr ref w =
      (asked ref (Info (''Payment verified: '' @ ref @ '' - Status: '' @ str (data_status d))) w,
       Inl (AppError ''Payment verification failed'' 500))"
      by (simp add: verifyPayment_def verifyTransaction_def Let_def asked_def)
    then show ?thesis by blast
  qed
qed

lemma verifyPayment_answered:
  assumes "findOne (\<lambda>p. reference p = ref) (payments w) = Some i"
    and "user (payments w ! i) = user_id usr" and "status (payments w ! i) \<noteq> success"
    and "verdict ref (Poll gw usr) = Some d"
  shows "verifyPayment lib gw usr ref w =
     (let w1 = asked ref (Info (''Payment verified: '' @ ref @ '' - Status: '' @ str (data_status d))) w;
          p2 = (if data_status d = Some ''success'' then charged lib d (payments w ! i)
                else verified d (payments w ! i));
          w2 = (if data_status d = Some ''success''
                then (case orders w (order (payments w ! i)) of
                        Some ord \<Rightarrow> save_order (order (payments w ! i)) (mark_paid lib ref d ord) w1
                      | None \<Rightarrow> w1)
                else w1)
      in case save_payment i p2 w2 of
           Inl rejected \<Rightarrow> (w2, Inl rejected)
         | Inr w3 \<Rightarrow> (w3, Inr (json 200 (''Payment '' @ status_str (status p2)) (Some p2))))"
proof -
  from assms(4) obtain r where r: "transaction_verify gw ref = Resolves r" "response_status r"
    "response_data r = Some d" by (auto split: promise.splits if_splits)
  show ?thesis
  proof (cases "data_status d = Some ''success''")
    case True
    with assms(1-3) r show ?thesis
      by (simp add: verifyPayment_def verifyTransaction_def Let_def asked_def verified_success
          cong: sum.case_cong)
  next
    case False
    with assms(1-3) r show ?thesis
      by (simp add: verifyPayment_def verifyTransaction_def Let_def asked_def)
  qed
qed

lemma handleSuccessfulCharge_missing:
  "findOne (\<lambda>p. Some (reference p) = data_reference d) (payments w) = None \<Longrightarrow>
   handleSuccessfulCharge lib d w
     = Inr (logger (Warn (''Payment not found for reference: '' @ str (data_reference d))) w)"
  by (simp add: handleSuccessfulCharge_def)

lemma handleSuccessfulCharge_rejected:
  "findOne (\<lambda>p. Some (reference p) = data_reference d) (payments w) = Some i \<Longrightarrow>
   validate (charged lib d (payments w ! i)) \<noteq> [] \<Longrightarrow>
   handleSuccessfulCharge lib d w = Inl (ValidationError (validate (charged lib d (payments w ! i))))"
  by (simp add: handleSuccessfulCharge_def Let_def save_payment_def)

lemma handleSuccessfulCharge_saved:
  "findOne (\<lambda>p. Some (reference p) = data_reference d) (payments w) = Some i \<Longrightarrow>
   validate (charged lib d (payments w ! i)) = [] \<Longrightarrow>
   handleSuccessfulCharge lib d w =
     (let oid = order (payments w ! i); w1 = put_payment i (charged lib d (payments w ! i)) w
      in case orders w oid of
           Some ord \<Rightarrow>
             if \<not> isPaid ord
             then Inr (logger (Info (''Order '' @ oid @ '' marked as paid via webhook''))
                        (save_order oid (mark_paid lib (str (data_reference d)) d ord) w1))
             else Inr w1
         | None \<Rightarrow> Inr w1)"
  by (simp add: handleSuccessfulCharge_def Let_def save_payment_def split: option.splits)

lemma handleFailedCharge_missing:
  "findOne (\<lambda>p. Some (reference p) = data_reference d) (payments w) = None \<Longrightarrow>
   handleFailedCharge d w
     = Inr (logger (Warn (''Payment not found for reference: '' @ str (data_reference d))) w)"
  by (simp add: handleFailedCharge_def)

lemma handleFailedCharge_found:
  "findOne (\<lambda>p. Some (reference p) = data_reference d) (payments w) = Some i \<Longrightarrow>
   handleFailedCharge d w =
     (if validate (declined d (payments w ! i)) = []
      then Inr (logger (Info (''Payment '' @ payment_id (payments w ! i) @ '' marked as failed via webhook''))
                 (put_payment i (declined d (payments w ! i)) w))
      else Inl (ValidationError (validate (declined d (payments w ! i)))))"
  by (simp add: handleFailedCharge_def Let_def save_payment_def)

text \<open>The world in which a webhook's event is handled: a line has been logged.\<close>

lemma handleWebhook_signed:
  assumes "validateWebhookSignature lib e signature body = Inr True"
  shows "handleWebhook lib e signature body w =
     (let ev = body_event body; d = body_data body;
          w1 = logger (Info (''Webhook received: '' @ ev @ '' - Reference: '' @ str (data_reference d))) w;
          handled = (if ev = ''charge.success'' then handleSuccessfulCharge lib d w1
                     else if ev = ''charge.failed'' then handleFailedCharge d w1
                     else if ev = ''transfer.success'' \<or> ev = ''transfer.failed''
                     then Inr (logger (Info (''Transfer event received: '' @ ev)) w1)
                     else Inr (logger (Info (''Unhandled webhook event: '' @ ev)) w1))
      in case handled of
           Inl thrown \<Rightarrow> (w1, Inl thrown)
         | Inr w2 \<Rightarrow> (w2, Inr (json 200 ''Webhook processed'' None)))"
  using assms by (simp add: handleWebhook_def)

lemma handleWebhook_charge_success:
  assumes "validateWebhookSignature lib e signature body = Inr True"
    and "body_event body = ''charge.success''"
  shows "handleWebhook lib e signature body w =
     (let w1 = logger (Info (''Webhook received: charge.success - Reference: ''
                              @ str (data_reference (body_data body)))) w
      in case handleSuccessfulCharge lib (body_data body) w1 of
           Inl thrown \<Rightarrow> (w1, Inl thrown)
         | Inr w2 \<Rightarrow> (w2, Inr (json 200 ''Webhook processed'' None)))"
  using assms by (simp add: handleWebhook_def Let_def cong: sum.case_cong)

lemma handleWebhook_charge_failed:
  assumes "validateWebhookSignature lib e signature body = Inr True"
    and "body_event body = ''charge.failed''"
  shows "handleWebhook lib e signature body w =
     (let w1 = logger (Info (''Webhook received: charge.failed - Reference: ''
                              @ str (data_reference (body_data body)))) w
      in case handleFailedCharge (body_data body) w1 of
           Inl thrown \<Rightarrow> (w1, Inl thrown)
         | Inr w2 \<Rightarrow> (w2, Inr (json 200 ''Webhook processed'' None)))"
  using assms by (simp add: handleWebhook_def Let_def cong: sum.case_cong)

subsection \<open>One resolution with a success verdict\<close>

text \<open>A poll that the gateway answers with success, on a payment that is not yet success.\<close>

lemma poll_success:
  assumes "findOne (\<lambda>p. reference p = ref) (payments w) = Some i"
    and "user (payments w ! i) = user_id usr" and "status (payments w ! i) \<noteq> success"
    and "verdict ref (Poll gw usr) = Some d" and "data_status d = Some ''success''"
  shows "verifyPayment lib gw usr ref w =
     (let w1 = asked ref (Info (''Payment verified: '' @ ref @ '' - Status: success'')) w;
          w2 = (case orders w (order (payments w ! i)) of
                  Some ord \<Rightarrow> save_order (order (payments w ! i)) (mark_paid lib ref d ord) w1
                | None \<Rightarrow> w1)
      in if validate (charged lib d (payments w ! i)) = []
         then (put_payment i (charged lib d (payments w ! i)) w2,
               Inr (json 200 ''Payment success'' (Some (charged lib d (payments w ! i)))))
         else (w2, Inl (ValidationError (validate (charged lib d (payments w ! i))))))"
  using assms(5) unfolding verifyPayment_answered[OF assms(1-4)]
  by (simp add: Let_def save_payment_def)

lemma poll_success_fields:
  assumes "findOne (\<lambda>p. reference p = ref) (payments w) = Some i"
    and "user (payments w ! i) = user_id usr" and "status (payments w ! i) \<noteq> success"
    and "verdict ref (Poll gw usr) = Some d" and "data_status d = Some ''success''"
  shows "payments (fst (verifyPayment lib gw usr ref w)) =
           (if validate (charged lib d (payments w ! i)) = []
            then (payments w)[i := charged lib d (payments w ! i)] else payments w)"
    and "orders (fst (verifyPayment lib gw usr ref w)) =
           (case orders w (order (payments w ! i)) of
              Some ord \<Rightarrow> (orders w)(order (payments w ! i) \<mapsto> mark_paid lib ref d ord)
            | None \<Rightarrow> orders w)"
    and "db_writes (fst (verifyPayment lib gw usr ref w)) =
           db_writes w @
           (case orders w (order (payments w ! i)) of
              Some ord \<Rightarrow> [OrderSave (order (payments w ! i))] | None \<Rightarrow> []) @
           (if validate (charged lib d (payments w ! i)) = []
            then [PaymentSave (payment_id (payments w ! i))] else [])"
  unfolding poll_success[OF assms]
  by (simp_all add: Let_def split: option.splits)

text \<open>A signed \<^verbatim>\<open>charge.success\<close> event whose reference finds a payment.\<close>

lemma hook_success_fields:
  assumes "findOne (\<lambda>p. Some (reference p) = data_reference (body_data body)) (payments w) = Some i"
    and "validateWebhookSignature lib e signature body = Inr True"
    and "body_event body = ''charge.success''"
    and "validate (charged lib (body_data body) (payments w ! i)) = []"
  shows "payments (fst (handleWebhook lib e signature body w)) =
           (payments w)[i := charged lib (body_data body) (payments w ! i)]"
    and "orders (fst (handleWebhook lib e signature body w)) =
           (case orders w (order (payments w ! i)) of
              Some ord \<Rightarrow>
                if \<not> isPaid ord
                then (orders w)(order (payments w ! i) \<mapsto>
                       mark_paid lib (str (data_reference (body_data body))) (body_data body) ord)
                else orders w
            | None \<Rightarrow> orders w)"
    and "db_writes (fst (handleWebhook lib e signature body w)) =
           db_writes w @ [PaymentSave (payment_id (payments w ! i))] @
           (case orders w (order (payments w ! i)) of
              Some ord \<Rightarrow> if \<not> isPaid ord then [OrderSave (order (payments w ! i))] else []
            | None \<Rightarrow> [])"
    and "snd (handleWebhook lib e signature body w) = Inr (json 200 ''Webhook processed'' None)"
proof -
  let ?w1 = "logger (Info (''Webhook received: charge.success - Reference: ''
                              @ str (data_reference (body_data body)))) w"
  have f: "findOne (\<lambda>p. Some (reference p) = data_reference (body_data body)) (payments ?w1) = Some i"
    using assms(1) by simp
  have v: "validate (charged lib (body_data body) (payments ?w1 ! i)) = []"
    using assms(4) by simp
  note eq = handleWebhook_charge_success[OF assms(2,3), of w]
  note h = handleSuccessfulCharge_saved[OF f v]
  show "payments (fst (handleWebhook lib e signature body w)) =
           (payments w)[i := charged lib (body_data body) (payments w ! i)]"
    unfolding eq Let_def h by (simp split: option.splits)
  show "orders (fst (handleWebhook lib e signature body w)) =
           (case orders w (order (payments w ! i)) of
              Some ord \<Rightarrow>
                if \<not> isPaid ord
                then (orders w)(order (payments w ! i) \<mapsto>
                       mark_paid lib (str (data_reference (body_data body))) (body_data body) ord)
                else orders w
            | None \<Rightarrow> orders w)"
    unfolding eq Let_def h by (simp split: option.splits)
  show "db_writes (fst (handleWebhook lib e signature body w)) =
           db_writes w @ [PaymentSave (payment_id (payments w ! i))] @
           (case orders w (order (payments w ! i)) of
              Some ord \<Rightarrow> if \<not> isPaid ord then [OrderSave (order (payments w ! i))] else []
            | None \<Rightarrow> [])"
    unfolding eq Let_def h by (simp split: option.splits)
  show "snd (handleWebhook lib e signature body w) = Inr (json 200 ''Webhook processed'' None)"
    unfolding eq Let_def h by (simp split: option.splits)
qed

text \<open>A signed \<^verbatim>\<open>charge.success\<close> event whose payment the schema rejects.\<close>

lemma hook_success_rejected:
  assumes "findOne (\<lambda>p. Some (reference p) = data_reference (body_data body)) (payments w) = Some i"
    and "validateWebhookSignature lib e signature body = Inr True"
    and "body_event body = ''charge.success''"
    and "validate (charged lib (body_data body) (payments w ! i)) \<noteq> []"
  shows "handleWebhook lib e signature body w =
           (logger (Info (''Webhook received: charge.success - Reference: ''
                              @ str (data_reference (body_data body)))) w,
            Inl (ValidationError (validate (charged lib (body_data body) (payments w ! i)))))"
proof -
  let ?w1 = "logger (Info (''Webhook received: charge.success - Reference: ''
                              @ str (data_reference (body_data body)))) w"
  have f: "findOne (\<lambda>p. Some (reference p) = data_reference (body_data body)) (payments ?w1) = Some i"
    using assms(1) by simp
  have v: "validate (charged lib (body_data body) (payments ?w1 ! i)) \<noteq> []"
    using assms(4) by simp
  show ?thesis
    unfolding handleWebhook_charge_success[OF assms(2,3), of w] Let_def
      handleSuccessfulCharge_rejected[OF f v]
    by simp
qed

lemma order_saves_eq:
  "db_writes w' = db_writes w @ xs \<Longrightarrow>
   order_saves oid w' = order_saves oid w + length (filter (\<lambda>x. x = OrderSave oid) xs)"
  by (simp add: order_saves_def)

text \<open>
  One resolution with a success verdict that the schema accepts, on a payment that is
  valid and not yet success: the payment at the same place is success and valid, and its
  order, when there is one, is paid.
\<close>

lemma first_resolve_any:
  assumes "findOne (\<lambda>p. reference p = ref) (payments w) = Some i"
    and "status (payments w ! i) \<noteq> success"
    and "validate (payments w ! i) = []"
    and "success_verdict lib e ref (user (payments w ! i)) r"
    and "accepted lib ref r"
  shows "same_row ref i w (resolve lib e ref r w) \<and>
         status (payments (resolve lib e ref r w) ! i) = success \<and>
         validate (payments (resolve lib e ref r w) ! i) = [] \<and>
         settled (order (payments w ! i)) (resolve lib e ref r w) \<and>
         order_saves (order (payments w ! i)) (resolve lib e ref r w)
           \<le> order_saves (order (payments w ! i)) w + 1"
proof -
  let ?p = "payments w ! i"
  from findOne_SomeD[OF assms(1)] have i: "i < length (payments w)" and rp: "reference ?p = ref"
    by simp_all
  from assms(5) obtain d where d: "verdict ref r = Some d" and acc: "schema_accepts lib d"
    by (auto simp: accepted_def split: option.splits)
  have val: "validate (charged lib d ?p) = []"
    using assms(3) acc by (rule validate_charged)
  have f': "findOne (\<lambda>p. reference p = ref) ((payments w)[i := charged lib d ?p]) = Some i"
    using assms(1) rp by (simp add: findOne_update)
  show ?thesis
  proof (cases r)
    case (Poll gw usr)
    from assms(4) Poll d have own: "user ?p = user_id usr" and s: "data_status d = Some ''success''"
      by auto
    note fs = poll_success_fields[OF assms(1) own assms(2) d[unfolded Poll] s, of lib]
    show ?thesis
      unfolding Poll resolve.simps same_row_def settled_def
      using i f' val
      by (simp add: fs order_saves_eq[OF fs(3)] mark_paid_def split: option.splits)
  next
    case (Hook signature body)
    from assms(4) Hook d have sig: "validateWebhookSignature lib e signature body = Inr True"
      and ev: "body_event body = ''charge.success''" and dr: "data_reference d = Some ref"
      and bd: "body_data body = d"
      by auto
    have f: "findOne (\<lambda>p. Some (reference p) = data_reference (body_data body)) (payments w) = Some i"
      using assms(1) dr bd by simp
    note fs = hook_success_fields[OF f sig ev val[folded bd]]
    show ?thesis
      unfolding Hook resolve.simps same_row_def settled_def
      using i f' val
      by (simp add: fs bd order_saves_eq[OF fs(3)] mark_paid_def split: option.splits)
  qed
qed

text \<open>When the order exists and is unpaid, the first resolution saves it once, paid.\<close>

lemma first_resolve:
  assumes "findOne (\<lambda>p. reference p = ref) (payments w) = Some i"
    and "status (payments w ! i) \<noteq> success"
    and "validate (payments w ! i) = []"
    and "orders w (order (payments w ! i)) = Some ord" and "\<not> isPaid ord"
    and "success_verdict lib e ref (user (payments w ! i)) r"
    and "accepted lib ref r"
  shows "\<exists>d. verdict ref r = Some d \<and>
           orders (resolve lib e ref r w)
             = (orders w)(order (payments w ! i) \<mapsto> mark_paid lib ref d ord) \<and>
           order_saves (order (payments w ! i)) (resolve lib e ref r w)
             = order_saves (order (payments w ! i)) w + 1"
proof -
  let ?p = "payments w ! i"
  from assms(7) obtain d where d: "verdict ref r = Some d" and acc: "schema_accepts lib d"
    by (auto simp: accepted_def split: option.splits)
  have val: "validate (charged lib d ?p) = []"
    using assms(3) acc by (rule validate_charged)
  show ?thesis
  proof (cases r)
    case (Poll gw usr)
    from assms(6) Poll d have own: "user ?p = user_id usr" and s: "data_status d = Some ''success''"
      by auto
    note fs = poll_success_fields[OF assms(1) own assms(2) d[unfolded Poll] s, of lib]
    show ?thesis
      unfolding Poll resolve.simps
      using assms(4) val d[unfolded Poll]
      by (simp add: fs order_saves_eq[OF fs(3)])
  next
    case (Hook signature body)
    from assms(6) Hook d have sig: "validateWebhookSignature lib e signature body = Inr True"
      and ev: "body_event body = ''charge.success''" and dr: "data_reference d = Some ref"
      and bd: "body_data body = d"
      by auto
    have f: "findOne (\<lambda>p. Some (reference p) = data_reference (body_data body)) (payments w) = Some i"
      using assms(1) dr bd by simp
    note fs = hook_success_fields[OF f sig ev val[folded bd]]
    show ?thesis
      unfolding Hook resolve.simps
      using assms(4,5) dr bd
      by (simp add: fs order_saves_eq[OF fs(3)])
  qed
qed

text \<open>
  A later resolution with a success verdict, on a payment that is success and whose order
  is missing or paid: nothing changes but, by a webhook, the data stored on the payment.
\<close>

lemma later_resolve_any:
  assumes "findOne (\<lambda>p. reference p = ref) (payments w) = Some i"
    and "status (payments w ! i) = success"
    and "validate (payments w ! i) = []"
    and "settled (order (payments w ! i)) w"
    and "success_verdict lib e ref (user (payments w ! i)) r"
    and "accepted lib ref r"
  shows "same_row ref i w (resolve lib e ref r w) \<and>
         status (payments (resolve lib e ref r w) ! i) = success \<and>
         validate (payments (resolve lib e ref r w) ! i) = [] \<and>
         orders (resolve lib e ref r w) = orders w \<and>
         order_saves oid (resolve lib e ref r w) = order_saves oid w"
proof (cases r)
  case (Poll gw usr)
  show ?thesis
    using assms Poll by (simp add: same_row_def verifyPayment_def Let_def)
next
  case (Hook signature body)
  let ?p = "payments w ! i"
  from findOne_SomeD[OF assms(1)] have i: "i < length (payments w)" and rp: "reference ?p = ref"
    by simp_all
  from assms(6) obtain d where d: "verdict ref r = Some d" and acc: "schema_accepts lib d"
    by (auto simp: accepted_def split: option.splits)
  have val: "validate (charged lib d ?p) = []"
    using assms(3) acc by (rule validate_charged)
  have f': "findOne (\<lambda>p. reference p = ref) ((payments w)[i := charged lib d ?p]) = Some i"
    using assms(1) rp by (simp add: findOne_update)
  from assms(5) Hook d have sig: "validateWebhookSignature lib e signature body = Inr True"
    and ev: "body_event body = ''charge.success''" and dr: "data_reference d = Some ref"
    and bd: "body_data body = d"
    by auto
  have f: "findOne (\<lambda>p. Some (reference p) = data_reference (body_data body)) (payments w) = Some i"
    using assms(1) dr bd by simp
  note fs = hook_success_fields[OF f sig ev val[folded bd]]
  show ?thesis
    unfolding Hook resolve.simps same_row_def
    using i f' val assms(4)
    by (auto simp: fs bd order_saves_eq[OF fs(3)] settled_def split: option.splits)
qed

lemma later_run_any:
  assumes "findOne (\<lambda>p. reference p = ref) (payments w) = Some i"
    and "status (payments w ! i) = success"
    and "validate (payments w ! i) = []"
    and "settled (order (payments w ! i)) w"
    and "\<forall>r\<in>set rs. success_verdict lib e ref (user (payments w ! i)) r \<and> accepted lib ref r"
  shows "status_of ref (run lib e ref rs w) = Some success \<and>
         orders (run lib e ref rs w) = orders w \<and>
         order_saves oid (run lib e ref rs w) = order_saves oid w \<and>
         transitions lib e ref rs w = 0"
  using assms
proof (induction rs arbitrary: w)
  case Nil
  then show ?case by (simp add: status_of_def)
next
  case (Cons r rs)
  let ?w = "resolve lib e ref r w"
  from Cons.prems have v: "success_verdict lib e ref (user (payments w ! i)) r"
    and a: "accepted lib ref r" by simp_all
  note step = later_resolve_any[OF Cons.prems(1-4) v a]
  from step have row: "same_row ref i w ?w" and st: "status (payments ?w ! i) = success"
    and val: "validate (payments ?w ! i) = []"
    and ords: "orders ?w = orders w" by blast+
  from step have sv: "order_saves oid ?w = order_saves oid w" by blast
  from row have f: "findOne (\<lambda>p. reference p = ref) (payments ?w) = Some i"
    and u: "user (payments ?w ! i) = user (payments w ! i)"
    and o: "order (payments ?w ! i) = order (payments w ! i)"
    by (simp_all add: same_row_def)
  have s': "settled (order (payments ?w ! i)) ?w"
    using Cons.prems(4) ords o by (simp add: settled_def)
  have vs: "\<forall>r\<in>set rs. success_verdict lib e ref (user (payments ?w ! i)) r \<and> accepted lib ref r"
    using Cons.prems(5) u by simp
  note ih = Cons.IH[OF f st val s' vs]
  have "status_of ref w = Some success"
    using Cons.prems(1,2) by (simp add: status_of_def)
  with ih ords sv show ?case by simp
qed

text \<open>
  Exactly-once application of success, for verdicts the schema accepts. A payment is
  pending and valid. After any non-empty sequence of resolutions with a success verdict
  for its reference that the Payment schema accepts, by polling, by webhook or mixed:
  exactly one request took the payment from pending to success, which it now is; the
  orders are what the first request left; and the payment's order was saved at most once.
  When that order exists and was unpaid, it was saved exactly once and is now paid, with
  the date of the first verdict.
\<close>

lemma exactly_once_when_accepted:
  assumes "findOne (\<lambda>p. reference p = ref) (payments w) = Some i"
    and "status (payments w ! i) = pending"
    and "validate (payments w ! i) = []"
    and "rs \<noteq> []"
    and "\<forall>r\<in>set rs. success_verdict lib e ref (user (payments w ! i)) r \<and> accepted lib ref r"
  shows "transitions lib e ref rs w = 1 \<and>
         status_of ref (run lib e ref rs w) = Some success \<and>
         orders (run lib e ref rs w) = orders (resolve lib e ref (hd rs) w) \<and>
         order_saves (order (payments w ! i)) (run lib e ref rs w)
           \<le> order_saves (order (payments w ! i)) w + 1 \<and>
         (\<forall>ord. orders w (order (payments w ! i)) = Some ord \<and> \<not> isPaid ord \<longrightarrow>
            order_saves (order (payments w ! i)) (run lib e ref rs w)
              = order_saves (order (payments w ! i)) w + 1 \<and>
            (\<exists>d ord'. verdict ref (hd rs) = Some d \<and>
               orders (run lib e ref rs w) (order (payments w ! i)) = Some ord' \<and>
               isPaid ord' \<and> order_paidAt ord' = Some (new_Date lib (data_paid_at d))))"
proof -
  from assms(4) obtain r rs' where rs: "rs = r # rs'" by (cases rs) auto
  let ?oid = "order (payments w ! i)"
  let ?w = "resolve lib e ref r w"
  from assms(5) rs have v: "success_verdict lib e ref (user (payments w ! i)) r"
    and a: "accepted lib ref r" by simp_all
  have ns: "status (payments w ! i) \<noteq> success" using assms(2) by simp
  note step = first_resolve_any[OF assms(1) ns assms(3) v a]
  from step have row: "same_row ref i w ?w" and st: "status (payments ?w ! i) = success"
    and val: "validate (payments ?w ! i) = []"
    and settled: "settled ?oid ?w"
    and le: "order_saves ?oid ?w \<le> order_saves ?oid w + 1" by blast+
  from row have f: "findOne (\<lambda>p. reference p = ref) (payments ?w) = Some i"
    and u: "user (payments ?w ! i) = user (payments w ! i)"
    and o: "order (payments ?w ! i) = ?oid"
    by (simp_all add: same_row_def)
  have s': "settled (order (payments ?w ! i)) ?w" using settled o by simp
  have vs: "\<forall>r\<in>set rs'. success_verdict lib e ref (user (payments ?w ! i)) r \<and> accepted lib ref r"
    using assms(5) rs u by simp
  note rest = later_run_any[OF f st val s' vs, of ?oid]
  have s0: "status_of ref w = Some pending"
    using assms(1,2) by (simp add: status_of_def)
  have s1: "status_of ref ?w = Some success"
    using f st by (simp add: status_of_def)
  have general: "transitions lib e ref rs w = 1 \<and>
         status_of ref (run lib e ref rs w) = Some success \<and>
         orders (run lib e ref rs w) = orders ?w \<and>
         order_saves ?oid (run lib e ref rs w) \<le> order_saves ?oid w + 1"
    using rest rs s0 s1 le by simp
  have unpaid: "order_saves ?oid (run lib e ref rs w) = order_saves ?oid w + 1 \<and>
            (\<exists>d ord'. verdict ref (hd rs) = Some d \<and>
               orders (run lib e ref rs w) ?oid = Some ord' \<and>
               isPaid ord' \<and> order_paidAt ord' = Some (new_Date lib (data_paid_at d)))"
    if "orders w ?oid = Some ord \<and> \<not> isPaid ord" for ord
  proof -
    from that have ord: "orders w ?oid = Some ord" "\<not> isPaid ord" by blast+
    note first = first_resolve[OF assms(1) ns assms(3) ord v a]
    from first obtain d where d: "verdict ref r = Some d"
      and ords: "orders ?w = (orders w)(?oid \<mapsto> mark_paid lib ref d ord)"
      and sv: "order_saves ?oid ?w = order_saves ?oid w + 1" by blast
    have "isPaid (mark_paid lib ref d ord)"
      "order_paidAt (mark_paid lib ref d ord) = Some (new_Date lib (data_paid_at d))"
      by (simp_all add: mark_paid_def)
    with rest rs sv d ords show ?thesis by simp
  qed
  have hd: "hd rs = r" using rs by simp
  from general unpaid show ?thesis unfolding hd by blast
qed

lemma exactly_once_when_accepted_example:
  "transitions ex_library ex_env ''ORDER-O1-1''
      [Poll (ex_gateway ex_success) ex_user, ex_hook ''charge.success'' ex_success,
       Poll (ex_gateway ex_success) ex_user] ex_world = 1 \<and>
   order_saves ''O1'' (run ex_library ex_env ''ORDER-O1-1''
      [Poll (ex_gateway ex_success) ex_user, ex_hook ''charge.success'' ex_success,
       Poll (ex_gateway ex_success) ex_user] ex_world) = 1"
proof -
  let ?rs = "[Poll (ex_gateway ex_success) ex_user, ex_hook ''charge.success'' ex_success,
       Poll (ex_gateway ex_success) ex_user]"
  have 1: "findOne (\<lambda>p. reference p = ''ORDER-O1-1'') (payments ex_world) = Some 0"
    by (simp add: ex_defs)
  have 2: "status (payments ex_world ! 0) = pending" by (simp add: ex_defs)
  have 3: "orders ex_world (order (payments ex_world ! 0)) = Some ex_order \<and> \<not> isPaid ex_order"
    by (simp add: ex_defs)
  have 4: "validate (payments ex_world ! 0) = []"
    by (simp add: validate_def currency_enum_def ex_defs)
  have 5: "?rs \<noteq> []" by simp
  have 6: "\<forall>r\<in>set ?rs. success_verdict ex_library ex_env ''ORDER-O1-1'' (user (payments ex_world ! 0)) r
             \<and> accepted ex_library ''ORDER-O1-1'' r"
    by (simp add: ex_defs validateWebhookSignature_def secret_def accepted_def schema_accepts_def
        paymentMethod_enum_def new_Date_def)
  have o: "order (payments ex_world ! 0) = ''O1''" by (simp add: ex_defs)
  have s: "order_saves ''O1'' ex_world = 0" by (simp add: ex_defs order_saves_def)
  note t = exactly_once_when_accepted[OF 1 2 4 5 6]
  from t have a: "transitions ex_library ex_env ''ORDER-O1-1'' ?rs ex_world = 1" by blast
  from t 3 have "order_saves (order (payments ex_world ! 0)) (run ex_library ex_env ''ORDER-O1-1'' ?rs ex_world)
      = order_saves (order (payments ex_world ! 0)) ex_world + 1" by blast
  then have b: "order_saves ''O1'' (run ex_library ex_env ''ORDER-O1-1'' ?rs ex_world) = 1"
    unfolding o s by simp
  from a b show ?thesis by blast
qed

subsection \<open>A success verdict that the schema rejects\<close>

text \<open>
  A poll answered with success whose channel is not a payment method of the schema, or
  whose date is invalid: the order, when there is one, is saved as paid, then the save of
  the payment is rejected, so the payments are what they were. This repeats on every poll.
\<close>

lemma rejected_poll:
  assumes "findOne (\<lambda>p. reference p = ref) (payments w) = Some i"
    and "user (payments w ! i) = user_id usr" and "status (payments w ! i) \<noteq> success"
    and "verdict ref (Poll gw usr) = Some d" and "data_status d = Some ''success''"
    and "validate (charged lib d (payments w ! i)) \<noteq> []"
  shows "payments (resolve lib e ref (Poll gw usr) w) = payments w \<and>
         orders (resolve lib e ref (Poll gw usr) w) =
           (case orders w (order (payments w ! i)) of
              Some ord \<Rightarrow> (orders w)(order (payments w ! i) \<mapsto> mark_paid lib ref d ord)
            | None \<Rightarrow> orders w) \<and>
         order_saves (order (payments w ! i)) (resolve lib e ref (Poll gw usr) w) =
           order_saves (order (payments w ! i)) w +
             (case orders w (order (payments w ! i)) of Some ord \<Rightarrow> 1 | None \<Rightarrow> 0) \<and>
         snd (verifyPayment lib gw usr ref w)
           = Inl (ValidationError (validate (charged lib d (payments w ! i))))"
proof -
  note fs = poll_success_fields[OF assms(1-5), of lib]
  have "snd (verifyPayment lib gw usr ref w)
           = Inl (ValidationError (validate (charged lib d (payments w ! i))))"
    unfolding poll_success[OF assms(1-5)] using assms(6) by (simp add: Let_def)
  then show ?thesis
    using assms(6) by (simp add: fs order_saves_eq[OF fs(3)] split: option.splits)
qed

lemma rejected_polls:
  assumes "findOne (\<lambda>p. reference p = ref) (payments w) = Some i"
    and "user (payments w ! i) = user_id usr" and "status (payments w ! i) \<noteq> success"
    and "verdict ref (Poll gw usr) = Some d" and "data_status d = Some ''success''"
    and "validate (charged lib d (payments w ! i)) \<noteq> []"
    and "orders w (order (payments w ! i)) = Some ord"
  shows "payments (run lib e ref (replicate n (Poll gw usr)) w) = payments w \<and>
         transitions lib e ref (replicate n (Poll gw usr)) w = 0 \<and>
         order_saves (order (payments w ! i)) (run lib e ref (replicate n (Poll gw usr)) w)
           = order_saves (order (payments w ! i)) w + n \<and>
         (0 < n \<longrightarrow> (\<exists>ord'. orders (run lib e ref (replicate n (Poll gw usr)) w) (order (payments w ! i))
                         = Some ord' \<and> isPaid ord'))"
  using assms
proof (induction n arbitrary: w ord)
  case 0
  then show ?case by simp
next
  case (Suc n)
  let ?w = "resolve lib e ref (Poll gw usr) w"
  let ?oid = "order (payments w ! i)"
  note step = rejected_poll[OF Suc.prems(1-6), of e]
  from step have p: "payments ?w = payments w" by blast
  from step Suc.prems(7) have o: "orders ?w = (orders w)(?oid \<mapsto> mark_paid lib ref d ord)"
    and s: "order_saves ?oid ?w = order_saves ?oid w + 1" by simp_all
  have f: "findOne (\<lambda>p. reference p = ref) (payments ?w) = Some i"
    and own: "user (payments ?w ! i) = user_id usr" and st: "status (payments ?w ! i) \<noteq> success"
    and v: "validate (charged lib d (payments ?w ! i)) \<noteq> []"
    and o': "orders ?w (order (payments ?w ! i)) = Some (mark_paid lib ref d ord)"
    using Suc.prems p o by simp_all
  note ih = Suc.IH[OF f own st Suc.prems(4,5) v o']
  have same: "status_of ref ?w = status_of ref w" using p by (simp add: status_of_def)
  have ns: "status_of ref w \<noteq> Some success"
    using Suc.prems(1,3) by (simp add: status_of_def)
  have paid: "\<exists>ord'. orders (run lib e ref (replicate n (Poll gw usr)) ?w) ?oid = Some ord' \<and> isPaid ord'"
  proof (cases n)
    case 0
    then show ?thesis using o by (simp add: mark_paid_def)
  next
    case (Suc m)
    with ih p show ?thesis by simp
  qed
  from ih p s same ns paid show ?case by simp
qed

text \<open>
  C1. Exactly-once application of success does not hold. The pending payment of order
  \<^verbatim>\<open>O1\<close> is polled twice by its owner, and the gateway reports success both times,
  for a payment by Apple Pay. Each poll is a resolution with a success verdict. The schema
  has no such payment method, so each poll ends in the validation error of the rejected
  save: no request took the payment from pending to success, it is still pending, and
  the order has been saved twice, once by each poll, and is flagged paid. The webhook
  path saves the payment before the order and writes on an order only when it is unpaid;
  the polling path does neither.
\<close>

theorem success_rejected_by_schema:
  "success_verdict ex_library ex_env ''ORDER-O1-1'' ''U1'' (Poll (ex_gateway ex_apple_pay) ex_user) \<and>
   status_of ''ORDER-O1-1'' ex_world = Some pending \<and>
   snd (verifyPayment ex_library (ex_gateway ex_apple_pay) ex_user ''ORDER-O1-1'' ex_world)
     = Inl (ValidationError [''paymentMethod'']) \<and>
   transitions ex_library ex_env ''ORDER-O1-1''
     [Poll (ex_gateway ex_apple_pay) ex_user, Poll (ex_gateway ex_apple_pay) ex_user] ex_world = 0 \<and>
   status_of ''ORDER-O1-1'' (run ex_library ex_env ''ORDER-O1-1''
     [Poll (ex_gateway ex_apple_pay) ex_user, Poll (ex_gateway ex_apple_pay) ex_user] ex_world)
     = Some pending \<and>
   order_saves ''O1'' (run ex_library ex_env ''ORDER-O1-1''
     [Poll (ex_gateway ex_apple_pay) ex_user, Poll (ex_gateway ex_apple_pay) ex_user] ex_world) = 2 \<and>
   map_option isPaid (orders (run ex_library ex_env ''ORDER-O1-1''
     [Poll (ex_gateway ex_apple_pay) ex_user, Poll (ex_gateway ex_apple_pay) ex_user] ex_world) ''O1'')
     = Some True"
proof -
  let ?r = "Poll (ex_gateway ex_apple_pay) ex_user"
  let ?ref = "''ORDER-O1-1''"
  have f: "findOne (\<lambda>p. reference p = ?ref) (payments ex_world) = Some 0"
    by (simp add: ex_defs)
  have own: "user (payments ex_world ! 0) = user_id ex_user" by (simp add: ex_defs)
  have st: "status (payments ex_world ! 0) \<noteq> success" by (simp add: ex_defs)
  have v: "verdict ?ref ?r = Some ex_apple_pay" by (simp add: ex_defs)
  have s: "data_status ex_apple_pay = Some ''success''" by (simp add: ex_defs)
  have val: "validate (charged ex_library ex_apple_pay (payments ex_world ! 0)) = [''paymentMethod'']"
    by (simp add: validate_def charged_def new_Date_def currency_enum_def paymentMethod_enum_def
        ex_defs)
  then have nv: "validate (charged ex_library ex_apple_pay (payments ex_world ! 0)) \<noteq> []" by simp
  have o: "orders ex_world (order (payments ex_world ! 0)) = Some ex_order" by (simp add: ex_defs)
  have oid: "order (payments ex_world ! 0) = ''O1''" by (simp add: ex_defs)
  have two: "[?r, ?r] = replicate 2 ?r" by (simp add: numeral_2_eq_2)
  have sv: "success_verdict ex_library ex_env ?ref ''U1'' ?r"
    using v s by (simp add: ex_user_def)
  have s0: "status_of ?ref ex_world = Some pending" by (simp add: status_of_def ex_defs)
  have z: "order_saves ''O1'' ex_world = 0" by (simp add: order_saves_def ex_defs)
  note one = rejected_poll[OF f own st v s nv, of ex_env, unfolded val]
  note all = rejected_polls[OF f own st v s nv o, of ex_env 2, folded two, unfolded oid z]
  from all have p: "payments (run ex_library ex_env ?ref [?r, ?r] ex_world) = payments ex_world"
    by blast
  have s2: "status_of ?ref (run ex_library ex_env ?ref [?r, ?r] ex_world) = Some pending"
    using s0 p by (simp add: status_of_def)
  from all obtain ord' where "orders (run ex_library ex_env ?ref [?r, ?r] ex_world) ''O1'' = Some ord'"
    "isPaid ord'" by auto
  then have paid: "map_option isPaid (orders (run ex_library ex_env ?ref [?r, ?r] ex_world) ''O1'')
     = Some True" by simp
  from sv s0 one all s2 paid show ?thesis by simp
qed

subsection \<open>Terminal states\<close>

lemma map_update_same: "f y = f (xs ! i) \<Longrightarrow> map f (xs[i := y]) = map f xs"
  by (cases "i < length xs") (simp_all add: map_update list_update_same_conv list_update_beyond)

text \<open>What a poll does to the world, by the branch it takes.\<close>

lemma verifyPayment_outcome:
  obtains (untouched) "fst (verifyPayment lib gw usr ref w) = w"
  | (unanswered) l where "fst (verifyPayment lib gw usr ref w) = asked ref l w"
  | (failed) i d l where "findOne (\<lambda>p. reference p = ref) (payments w) = Some i"
      "verdict ref (Poll gw usr) = Some d" "data_status d \<noteq> Some ''success''"
      "fst (verifyPayment lib gw usr ref w) =
         (if validate (verified d (payments w ! i)) = []
          then put_payment i (verified d (payments w ! i)) (asked ref l w) else asked ref l w)"
  | (succeeded) i d where "findOne (\<lambda>p. reference p = ref) (payments w) = Some i"
      "user (payments w ! i) = user_id usr" "status (payments w ! i) \<noteq> success"
      "verdict ref (Poll gw usr) = Some d" "data_status d = Some ''success''"
proof (cases "findOne (\<lambda>p. reference p = ref) (payments w)")
  case None
  then show ?thesis using untouched by (simp add: verifyPayment_def)
next
  case (Some i)
  show ?thesis
  proof (cases "user (payments w ! i) = user_id usr \<and> status (payments w ! i) \<noteq> success")
    case False
    with Some show ?thesis using untouched by (auto simp: verifyPayment_def Let_def)
  next
    case True
    then have own: "user (payments w ! i) = user_id usr" and st: "status (payments w ! i) \<noteq> success"
      by blast+
    show ?thesis
    proof (cases "verdict ref (Poll gw usr)")
      case None
      from verifyPayment_unanswered[OF Some own st None, of lib] show ?thesis
        using unanswered by auto
    next
      case (Some d)
      note d = Some
      show ?thesis
      proof (cases "data_status d = Some ''success''")
        case True
        with \<open>findOne _ _ = Some i\<close> own st d show ?thesis by (rule succeeded)
      next
        case False
        note eq = verifyPayment_answered[OF \<open>findOne _ _ = Some i\<close> own st d, of lib]
        let ?l = "Info (''Payment verified: '' @ ref @ '' - Status: '' @ str (data_status d))"
        have "fst (verifyPayment lib gw usr ref w) =
                (if validate (verified d (payments w ! i)) = []
                 then put_payment i (verified d (payments w ! i)) (asked ref ?l w) else asked ref ?l w)"
          unfolding eq using False by (simp add: Let_def save_payment_def)
        with \<open>findOne _ _ = Some i\<close> d False show ?thesis by (rule failed)
      qed
    qed
  qed
qed

text \<open>What a webhook does to the world, by the branch it takes.\<close>

lemma handleWebhook_outcome:
  obtains (logged) "payments (fst (handleWebhook lib e signature body w)) = payments w"
      "orders (fst (handleWebhook lib e signature body w)) = orders w"
      "db_writes (fst (handleWebhook lib e signature body w)) = db_writes w"
  | (charged) i where "validateWebhookSignature lib e signature body = Inr True"
      "body_event body = ''charge.success''"
      "findOne (\<lambda>p. Some (reference p) = data_reference (body_data body)) (payments w) = Some i"
      "validate (charged lib (body_data body) (payments w ! i)) = []"
  | (declined) i where "validateWebhookSignature lib e signature body = Inr True"
      "body_event body = ''charge.failed''"
      "findOne (\<lambda>p. Some (reference p) = data_reference (body_data body)) (payments w) = Some i"
      "validate (declined (body_data body) (payments w ! i)) = []"
      "payments (fst (handleWebhook lib e signature body w))
         = (payments w)[i := declined (body_data body) (payments w ! i)]"
      "orders (fst (handleWebhook lib e signature body w)) = orders w"
      "db_writes (fst (handleWebhook lib e signature body w))
         = db_writes w @ [PaymentSave (payment_id (payments w ! i))]"
proof (cases "validateWebhookSignature lib e signature body = Inr True")
  case False
  then show ?thesis using logged
    by (auto simp: handleWebhook_def split: sum.splits)
next
  case True
  note sig = True
  let ?d = "body_data body"
  let ?find = "findOne (\<lambda>p. Some (reference p) = data_reference ?d) (payments w)"
  show ?thesis
  proof (cases "body_event body = ''charge.success''")
    case True
    note ev = True
    note eq = handleWebhook_charge_success[OF sig ev, of w]
    show ?thesis
    proof (cases ?find)
      case None
      then show ?thesis using logged unfolding eq
        by (simp add: Let_def handleSuccessfulCharge_missing)
    next
      case (Some i)
      show ?thesis
      proof (cases "validate (charged lib ?d (payments w ! i)) = []")
        case True
        with sig ev Some show ?thesis by (rule charged)
      next
        case False
        from hook_success_rejected[OF Some sig ev False] show ?thesis using logged by simp
      qed
    qed
  next
    case False
    note ns = False
    show ?thesis
    proof (cases "body_event body = ''charge.failed''")
      case False
      with ns sig show ?thesis using logged by (simp add: handleWebhook_def Let_def)
    next
      case True
      note ev = True
      note eq = handleWebhook_charge_failed[OF sig ev, of w]
      show ?thesis
      proof (cases ?find)
        case None
        then show ?thesis using logged unfolding eq
          by (simp add: Let_def handleFailedCharge_missing)
      next
        case (Some i)
        show ?thesis
        proof (cases "validate (declined ?d (payments w ! i)) = []")
          case False
          with Some show ?thesis using logged unfolding eq
            by (simp add: Let_def handleFailedCharge_found)
        next
          case True
          have "fst (handleWebhook lib e signature body w) =
                  logger (Info (''Payment '' @ payment_id (payments w ! i) @ '' marked as failed via webhook''))
                    (put_payment i (declined ?d (payments w ! i))
                       (logger (Info (''Webhook received: charge.failed - Reference: ''
                                       @ str (data_reference ?d))) w))"
            unfolding eq using Some True by (simp add: Let_def handleFailedCharge_found)
          with Some sig ev True show ?thesis
            by (intro declined[of i]) simp_all
        qed
      qed
    qed
  qed
qed

lemma resolve_amounts: "map amount (payments (resolve lib e ref r w)) = map amount (payments w)"
proof (cases r)
  case (Poll gw usr)
  show ?thesis
  proof (cases rule: verifyPayment_outcome[of lib gw usr ref w])
    case untouched
    with Poll show ?thesis by simp
  next
    case (unanswered l)
    with Poll show ?thesis by simp
  next
    case (failed i d l)
    with Poll show ?thesis by (auto simp: map_update_same)
  next
    case (succeeded i d)
    note fs = poll_success_fields[OF succeeded, of lib]
    show ?thesis unfolding Poll resolve.simps fs by (simp add: map_update_same)
  qed
next
  case (Hook signature body)
  show ?thesis
  proof (cases rule: handleWebhook_outcome[of lib e signature body w])
    case logged
    with Hook show ?thesis by simp
  next
    case (charged i)
    note fs = hook_success_fields[OF charged(3,1,2,4)]
    show ?thesis unfolding Hook resolve.simps fs by (simp add: map_update_same)
  next
    case (declined i)
    with Hook show ?thesis by (simp add: map_update_same)
  qed
qed

text \<open>
  C2. Terminal states. The claim that no resolution changes a payment once it is success,
  failed or abandoned does not hold: verifyPayment returns early only for a payment that
  is success, so a poll of a failed payment asks the gateway again and stores the new
  verdict. Here the only payment of the ledger is failed, the gateway now reports success,
  and after the owner's poll the payment is success.
\<close>

theorem terminal_immutability_counterexample:
  "map status (payments ex_failed_world) = [failed] \<and>
   map status (payments (fst (verifyPayment ex_library (ex_gateway ex_success) ex_user ''ORDER-O1-1''
                                ex_failed_world))) = [success]"
proof -
  have f: "findOne (\<lambda>p. reference p = ''ORDER-O1-1'') (payments ex_failed_world) = Some 0"
    by (simp add: ex_defs)
  have own: "user (payments ex_failed_world ! 0) = user_id ex_user" by (simp add: ex_defs)
  have st: "status (payments ex_failed_world ! 0) \<noteq> success" by (simp add: ex_defs)
  have v: "verdict ''ORDER-O1-1'' (Poll (ex_gateway ex_success) ex_user) = Some ex_success"
    by (simp add: ex_defs)
  have s: "data_status ex_success = Some ''success''" by (simp add: ex_defs)
  have val: "validate (charged ex_library ex_success (payments ex_failed_world ! 0)) = []"
    by (simp add: validate_def charged_def new_Date_def currency_enum_def paymentMethod_enum_def
        ex_defs)
  have p: "payments ex_failed_world = [ex_payment\<lparr>status := failed\<rparr>]" by (simp add: ex_defs)
  note fs = poll_success_fields(1)[OF f own st v s, of ex_library, unfolded val]
  show ?thesis unfolding fs by (simp add: p)
qed

text \<open>
  C2, as the code has it. A payment that is success is final for the polling path: a poll
  by its owner returns the stored payment as it is, in the world as it was (no gateway
  call, nothing written). And no resolution, on either path and whatever the verdict and
  the stored status, changes the amount of any payment.
\<close>

theorem success_final_for_polling:
  assumes "findOne (\<lambda>p. reference p = ref) (payments w) = Some i"
    and "status (payments w ! i) = success"
    and "user (payments w ! i) = user_id usr"
  shows "verifyPayment lib gw usr ref w
           = (w, Inr (json 200 ''Payment already verified'' (Some (payments w ! i)))) \<and>
         map amount (payments (resolve lib' e ref' r w')) = map amount (payments w')"
  using assms by (simp add: verifyPayment_def resolve_amounts)

theorem success_final_for_polling_witness:
  "verifyPayment ex_library (ex_gateway ex_failure) ex_user ''ORDER-O1-1'' ex_paid_world
     = (ex_paid_world, Inr (json 200 ''Payment already verified'' (Some (ex_payment\<lparr>status := success\<rparr>))))"
proof -
  have 1: "findOne (\<lambda>p. reference p = ''ORDER-O1-1'') (payments ex_paid_world) = Some 0"
    by (simp add: ex_defs)
  have 2: "status (payments ex_paid_world ! 0) = success" by (simp add: ex_defs)
  have 3: "user (payments ex_paid_world ! 0) = user_id ex_user" by (simp add: ex_defs)
  have 4: "payments ex_paid_world ! 0 = ex_payment\<lparr>status := success\<rparr>" by (simp add: ex_defs)
  from success_final_for_polling[OF 1 2 3, of ex_library "ex_gateway ex_failure"] show ?thesis
    unfolding 4 by blast
qed

subsection \<open>The conversion to the smallest currency unit\<close>

lemma powi_bitlen: "0 < p \<Longrightarrow> (2::rat) powi (bitlen p - 1) \<le> of_int p \<and> of_int p < (2::rat) powi (bitlen p)"
proof -
  assume p: "0 < p"
  from bitlen_bounds[OF p] have lo: "2 ^ nat (bitlen p - 1) \<le> p" and hi: "p < 2 ^ nat (bitlen p)"
    by simp_all
  from p have b: "1 \<le> bitlen p" by (auto simp: bitlen_alt_def)
  have "(2::rat) powi (bitlen p - 1) = 2 ^ nat (bitlen p - 1)"
    using b by (simp add: power_int_nonneg_exp)
  also have "\<dots> = of_int (2 ^ nat (bitlen p - 1))" by simp
  also have "\<dots> \<le> of_int p" using lo by (simp only: of_int_le_iff)
  finally have 1: "(2::rat) powi (bitlen p - 1) \<le> of_int p" .
  have "(of_int p :: rat) < of_int (2 ^ nat (bitlen p))" using hi by (simp only: of_int_less_iff)
  also have "\<dots> = 2 ^ nat (bitlen p)" by simp
  also have "\<dots> = (2::rat) powi (bitlen p)"
    using b by (simp add: power_int_nonneg_exp)
  finally have 2: "of_int p < (2::rat) powi (bitlen p)" .
  from 1 2 show ?thesis by blast
qed

lemma ilog2_bounds:
  assumes "0 < x"
  shows "2 powi (ilog2 x) \<le> x \<and> x < 2 powi (ilog2 x + 1)"
proof -
  obtain p q where pq: "quotient_of x = (p, q)" by (cases "quotient_of x")
  then have q: "0 < q" and x: "x = of_int p / of_int q"
    by (simp_all add: quotient_of_denom_pos quotient_of_div)
  from assms q x have p: "0 < p" by (simp add: zero_less_divide_iff)
  let ?d = "bitlen p - bitlen q"
  from powi_bitlen[OF p] powi_bitlen[OF q]
  have P: "(2::rat) powi (bitlen p - 1) \<le> of_int p" "of_int p < (2::rat) powi (bitlen p)"
    and Q: "(2::rat) powi (bitlen q - 1) \<le> of_int q" "of_int q < (2::rat) powi (bitlen q)"
    by blast+
  have qpos: "(0::rat) < of_int q" using q by simp
  have lo: "2 powi (?d - 1) \<le> x"
  proof -
    have "(2::rat) powi (?d - 1) = 2 powi (bitlen p - 1) / 2 powi (bitlen q)"
      using power_int_diff[of "2::rat" "bitlen p - 1" "bitlen q"] by (simp add: algebra_simps)
    also have "\<dots> \<le> of_int p / of_int q"
      using P(1) Q(2) qpos p by (intro frac_le) simp_all
    finally show ?thesis by (simp add: x)
  qed
  have hi: "x < 2 powi (?d + 1)"
  proof -
    have "x = of_int p / of_int q" by (rule x)
    also have "\<dots> < 2 powi (bitlen p) / 2 powi (bitlen q - 1)"
      using P(2) Q(1) p by (intro frac_less) simp_all
    also have "\<dots> = (2::rat) powi (?d + 1)"
      using power_int_diff[of "2::rat" "bitlen p" "bitlen q - 1"] by (simp add: algebra_simps)
    finally show ?thesis .
  qed
  have il: "ilog2 x = (if 2 powi ?d \<le> x then ?d else ?d - 1)"
    using pq by (simp add: ilog2_def Let_def)
  show ?thesis
  proof (cases "2 powi ?d \<le> x")
    case True
    with il hi show ?thesis by simp
  next
    case False
    with il lo show ?thesis by simp
  qed
qed

lemma round_half_even_error: "\<bar>of_int (round_half_even y) - y\<bar> \<le> 1 / 2"
proof -
  have "of_int \<lfloor>y\<rfloor> \<le> y" "y < of_int \<lfloor>y\<rfloor> + 1" by linarith+
  then show ?thesis
    by (auto simp: round_half_even_def Let_def)
qed

lemma ilog2_ge:
  assumes "0 < x" and "2 powi k \<le> x"
  shows "k \<le> ilog2 x"
proof -
  from ilog2_bounds[OF assms(1)] assms(2) have "(2::rat) powi k < 2 powi (ilog2 x + 1)" by simp
  moreover have "(2::rat) powi (ilog2 x + 1) \<le> 2 powi k" if "ilog2 x + 1 \<le> k"
    using that by (intro power_int_increasing) simp_all
  ultimately have "k < ilog2 x + 1" by fastforce
  then show ?thesis by simp
qed


text \<open>
  In the normal range a positive result is rounded with relative error at most 2^-53, and
  below 2^1023 it does not overflow.
\<close>

lemma fl_near:
  assumes "2 powi (- 1022) \<le> x" and "x < 2 ^ 1023"
  shows "\<exists>y. fl x = Finite y \<and> \<bar>y - x\<bar> \<le> x / 2 ^ 53"
proof -
  have pos: "0 < x"
    using assms(1) zero_less_power_int[of "2::rat" "- 1022"] by linarith
  let ?e = "ilog2 \<bar>x\<bar> - 52"
  let ?u = "(2::rat) powi ?e"
  let ?y = "of_int (round_half_even (x / ?u)) * ?u"
  have "- 1022 \<le> ilog2 x" using ilog2_ge[OF pos assms(1)] .
  then have e: "max ?e (- 1074) = ?e" using pos by simp
  have u: "0 < ?u" by simp
  have "?y - x = (of_int (round_half_even (x / ?u)) - x / ?u) * ?u"
    using u by (simp add: field_simps)
  then have "\<bar>?y - x\<bar> = \<bar>of_int (round_half_even (x / ?u)) - x / ?u\<bar> * ?u"
    using u by (simp add: abs_mult)
  also have "\<dots> \<le> 1 / 2 * ?u"
    using round_half_even_error[of "x / ?u"] u by (intro mult_right_mono) simp_all
  also have "\<dots> = 2 powi (ilog2 \<bar>x\<bar>) / 2 ^ 53"
    using power_int_diff[of "2::rat" "ilog2 \<bar>x\<bar>" 52] by simp
  also have "\<dots> \<le> x / 2 ^ 53"
    using ilog2_bounds[of "\<bar>x\<bar>"] pos by (intro divide_right_mono) simp_all
  finally have near: "\<bar>?y - x\<bar> \<le> x / 2 ^ 53" .
  have "x / 2 ^ 53 \<le> x" using pos by (simp add: field_simps)
  with near have "\<bar>?y\<bar> \<le> 2 * x" by linarith
  also have "\<dots> < 2 * 2 ^ 1023" using assms(2) by simp
  also have "\<dots> = (2::rat) powi 1024" by simp
  finally have "\<not> 2 powi 1024 \<le> \<bar>?y\<bar>" by simp
  then have "fl x = Finite ?y"
    using pos e by (simp add: fl_def Let_def)
  with near show ?thesis by blast
qed

text \<open>The amount of n hundredths, as the Number nearest to n / 100, converts to exactly n.\<close>

lemma tiny: "(2::rat) powi (- 1022) \<le> 1 / 128"
proof -
  have "(2::rat) powi (- 1022) \<le> 2 powi (- 7)"
    by (intro power_int_increasing) simp_all
  also have "\<dots> = 1 / 128" by (simp add: power_int_minus_divide)
  finally show ?thesis .
qed

lemma huge: "(2::rat) ^ 51 \<le> 2 ^ 1023"
  by (intro power_increasing) simp_all

lemma toKobo_exact:
  assumes "0 \<le> n" and "n \<le> 2 ^ 50"
  shows "\<exists>a. fl (of_int n / 100) = Finite a \<and> toKobo a = Finite (of_int n)"
proof (cases "n = 0")
  case True
  have "\<lfloor>1 / 2 :: rat\<rfloor> = 0" by (intro floor_unique) simp_all
  with True show ?thesis by (simp add: fl_def toKobo_def times_number_def)
next
  case False
  with assms have n: "1 \<le> n" by simp
  let ?n = "of_int n :: rat"
  let ?r = "?n / 100"
  have n1: "1 \<le> ?n" using n by simp
  have "?n \<le> of_int (2 ^ 50)" using assms(2) by (simp only: of_int_le_iff)
  then have nb: "?n \<le> 2 ^ 50" by simp
  have r_lo: "2 powi (- 1022) \<le> ?r" using tiny n1 by (simp add: field_simps)
  have r_hi: "?r < 2 ^ 1023" using huge nb by (simp add: field_simps)
  from fl_near[OF r_lo r_hi] obtain a where a: "fl ?r = Finite a" and ea: "\<bar>a - ?r\<bar> \<le> ?r / 2 ^ 53"
    by blast
  let ?p = "a * 100"
  have eq: "?p - ?n = (a - ?r) * 100" by (simp add: algebra_simps)
  have "\<bar>?p - ?n\<bar> = \<bar>(a - ?r) * 100\<bar>" by (simp only: eq)
  also have "\<dots> = \<bar>a - ?r\<bar> * 100" by (subst abs_mult) simp
  also have "\<dots> \<le> ?r / 2 ^ 53 * 100" using ea by (intro mult_right_mono) simp_all
  also have "\<dots> = ?n / 2 ^ 53" by simp
  finally have ep: "\<bar>?p - ?n\<bar> \<le> ?n / 2 ^ 53" .
  have small: "?n / 2 ^ 53 \<le> 1 / 8" using nb by (simp add: field_simps)
  have p_n: "?n / 2 \<le> ?p" "?p \<le> 2 * ?n" using ep n1 small by (simp_all add: abs_le_iff, linarith+)
  have p_lo: "2 powi (- 1022) \<le> ?p" using tiny p_n(1) n1 by linarith
  have p_hi: "?p < 2 ^ 1023" using huge p_n(2) nb by simp
  from fl_near[OF p_lo p_hi] obtain z where z: "fl ?p = Finite z" and ez: "\<bar>z - ?p\<bar> \<le> ?p / 2 ^ 53"
    by blast
  have "?p / 2 ^ 53 \<le> 2 * ?n / 2 ^ 53" using p_n(2) by (intro divide_right_mono) simp_all
  also have "\<dots> \<le> 1 / 4" using small by simp
  finally have "\<bar>z - ?p\<bar> \<le> 1 / 4" using ez by linarith
  with ep small have "\<bar>z - ?n\<bar> < 1 / 2" by linarith
  then have "?n \<le> z + 1 / 2" "z + 1 / 2 < ?n + 1" by linarith+
  then have "\<lfloor>z + 1 / 2\<rfloor> = n" by (rule floor_unique)
  with a z show ?thesis
    by (simp add: toKobo_def times_number_def)
qed


lemma ilog2_eq:
  assumes "2 powi k \<le> x" and "x < 2 powi (k + 1)"
  shows "ilog2 x = k"
proof -
  have pos: "0 < x"
    using assms(1) zero_less_power_int[of "2::rat" k] by linarith
  have "k \<le> ilog2 x" using ilog2_ge[OF pos assms(1)] .
  moreover have "ilog2 x < k + 1"
  proof (rule ccontr)
    assume "\<not> ilog2 x < k + 1"
    then have "(2::rat) powi (k + 1) \<le> 2 powi (ilog2 x)"
      by (intro power_int_increasing) simp_all
    with ilog2_bounds[OF pos] assms(2) show False by linarith
  qed
  ultimately show ?thesis by simp
qed

lemma round_half_even_eq:
  assumes "\<bar>y - of_int m\<bar> < 1 / 2"
  shows "round_half_even y = m"
proof (cases "of_int m \<le> y")
  case True
  with assms have "\<lfloor>y\<rfloor> = m" by (intro floor_unique) linarith+
  with assms True show ?thesis by (simp add: round_half_even_def Let_def)
next
  case False
  have "of_int (m - 1) = (of_int m :: rat) - 1" by simp
  with assms False have "of_int (m - 1) \<le> y" "y < of_int (m - 1) + 1" by linarith+
  then have "\<lfloor>y\<rfloor> = m - 1" by (rule floor_unique)
  with assms False show ?thesis by (simp add: round_half_even_def Let_def)
qed

text \<open>Rounding a positive number whose binade is known.\<close>

lemma fl_eq:
  assumes "2 powi k \<le> x" and "x < 2 powi (k + 1)" and "- 1022 \<le> k" and "k < 1023"
    and "round_half_even (x / 2 powi (k - 52)) = m" and "of_int m < (2::rat) ^ 53"
  shows "fl x = Finite (of_int m * 2 powi (k - 52))"
proof -
  have pos: "0 < x"
    using assms(1) zero_less_power_int[of "2::rat" k] by linarith
  have k: "ilog2 \<bar>x\<bar> = k" using ilog2_eq[OF assms(1,2)] pos by simp
  have m0: "0 \<le> m"
  proof -
    have "0 \<le> x / 2 powi (k - 52)" using pos by simp
    then have "(0::int) \<le> \<lfloor>x / 2 powi (k - 52)\<rfloor>" by simp
    then have "0 \<le> round_half_even (x / 2 powi (k - 52))"
      by (auto simp: round_half_even_def Let_def)
    with assms(5) show ?thesis by simp
  qed
  have "of_int m * (2::rat) powi (k - 52) < 2 ^ 53 * 2 powi (k - 52)"
    using assms(6) by (intro mult_strict_right_mono) simp_all
  also have "\<dots> = 2 powi (k + 1)"
    using power_int_add[of "2::rat" 53 "k - 52"] by (simp add: add.commute)
  also have "\<dots> \<le> 2 powi 1024"
    using assms(4) by (intro power_int_increasing) simp_all
  finally have "\<not> 2 powi 1024 \<le> \<bar>of_int m * (2::rat) powi (k - 52)\<bar>"
    using m0 by (simp add: abs_mult)
  then show ?thesis
    using pos k assms(3,5) by (simp add: fl_def Let_def)
qed

text \<open>
  C8. The conversion is not exact for every amount. The amount 9007199254740991
  (\<open>2^53 - 1\<close>) is a Number and a multiple of 0.01; a hundred times it is
  900719925474099100, which is no Number: the product is rounded to 900719925474099072,
  and that is what is sent.
\<close>

theorem toKobo_exact_counterexample:
  "fl (2 ^ 53 - 1) = Finite (2 ^ 53 - 1) \<and>
   toKobo (2 ^ 53 - 1) = Finite 900719925474099072 \<and>
   (100 * (2 ^ 53 - 1) :: rat) = 900719925474099100"
proof -
  have r1: "round_half_even (9007199254740991 / 2 powi (52 - 52)) = 9007199254740991"
    by (rule round_half_even_eq) simp
  have 1: "fl 9007199254740991 = Finite 9007199254740991"
    using fl_eq[of 52 9007199254740991 9007199254740991, OF _ _ _ _ r1] by simp
  have r2: "round_half_even (900719925474099100 / 2 powi (59 - 52)) = 7036874417766399"
    by (rule round_half_even_eq) simp
  have 2: "fl 900719925474099100 = Finite 900719925474099072"
    using fl_eq[of 59 900719925474099100 7036874417766399, OF _ _ _ _ r2] by simp
  have f2: "\<lfloor>900719925474099072 + 1 / 2 :: rat\<rfloor> = 900719925474099072"
    by (intro floor_unique) simp_all
  show ?thesis
    using 1 2 f2 by (simp add: toKobo_def times_number_def)
qed

text \<open>
  C8, as the code has it. The amount sent to the gateway is \<^verbatim>\<open>toKobo\<close> of the
  amount: the binary64 product \<^verbatim>\<open>amount * 100\<close>, rounded to the nearest integer
  with a tie going up. For every whole number \<open>n\<close> of hundredths from 0 to \<open>2^50\<close>,
  the amount written \<open>n / 100\<close>, that is the Number nearest to it, is sent as exactly
  \<open>n\<close>.
\<close>

theorem toKobo_conversion:
  assumes "0 \<le> n" and "n \<le> 2 ^ 50"
  shows "init_amount (transaction_params email amt ref cur meta cb) = toKobo amt \<and>
         toKobo amt = Math_round (times_number amt 100) \<and>
         (\<exists>a. fl (of_int n / 100) = Finite a \<and> toKobo a = Finite (of_int n))"
  using toKobo_exact[OF assms] by (simp add: transaction_params_def toKobo_def)

theorem toKobo_conversion_witness:
  "fl (115 / 100) = Finite (2589569785738035 / 2251799813685248) \<and>
   toKobo (2589569785738035 / 2251799813685248) = Finite 115"
proof -
  have r: "round_half_even (23 / 20 / 2 powi (0 - 52)) = 5179139571476070"
    by (rule round_half_even_eq) (simp add: power_int_minus_divide)
  have "fl (23 / 20) = Finite (of_int 5179139571476070 * 2 powi (0 - 52))"
    by (rule fl_eq[OF _ _ _ _ r]) simp_all
  then have f: "fl (23 / 20) = Finite (2589569785738035 / 2251799813685248)"
    by (simp add: power_int_minus_divide)
  have 1: "(0::int) \<le> 115" and 2: "(115::int) \<le> 2 ^ 50" by simp_all
  from toKobo_conversion[OF 1 2] obtain a
    where a: "fl (of_int 115 / 100) = Finite a" and k: "toKobo a = Finite (of_int 115)" by blast
  from a f have "a = 2589569785738035 / 2251799813685248" by simp
  with k have "toKobo (2589569785738035 / 2251799813685248) = Finite 115" by simp
  with f show ?thesis by simp
qed


subsection \<open>The branches of initializePayment\<close>

lemma initializePayment_no_order:
  "orders w (req_orderId rq) = None \<Longrightarrow>
   initializePayment gw now fresh usr rq w = (w, Inl (AppError ''Order not found'' 404))"
  by (simp add: initializePayment_def)

lemma initializePayment_not_owner:
  "orders w (req_orderId rq) = Some ord \<Longrightarrow> order_user ord \<noteq> user_id usr \<Longrightarrow>
   initializePayment gw now fresh usr rq w =
     (w, Inl (AppError ''Not authorized to pay for this order'' 403))"
  by (simp add: initializePayment_def)

lemma initializePayment_paid:
  "orders w (req_orderId rq) = Some ord \<Longrightarrow> order_user ord = user_id usr \<Longrightarrow> isPaid ord \<Longrightarrow>
   initializePayment gw now fresh usr rq w = (w, Inl (AppError ''Order is already paid'' 400))"
  by (simp add: initializePayment_def)

lemma initializePayment_existing:
  "orders w (req_orderId rq) = Some ord \<Longrightarrow> order_user ord = user_id usr \<Longrightarrow> \<not> isPaid ord \<Longrightarrow>
   findOne (active (req_orderId rq)) (payments w) = Some i \<Longrightarrow>
   initializePayment gw now fresh usr rq w =
     (if status (payments w ! i) = success
      then (w, Inl (AppError ''Payment already completed for this order'' 400))
      else (w, Inr (already_initialized (payments w ! i))))"
  by (simp add: initializePayment_def Let_def active_def[abs_def])

lemma initializePayment_rejected:
  assumes "orders w (req_orderId rq) = Some ord"
    and "order_user ord = user_id usr" and "\<not> isPaid ord"
    and "findOne (active (req_orderId rq)) (payments w) = None"
    and "transaction_initialize gw (charge_request now usr rq ord) = Rejects m"
  shows "initializePayment gw now fresh usr rq w =
           (called (charge_request now usr rq ord) (Err (''Paystack initialization error: '' @ m)) w,
            Inl (Thrown (''Payment initialization failed: '' @ m)))"
  using assms
  by (simp add: initializePayment_def initializeTransaction_def Let_def active_def[abs_def]
      charge_request_def called_def)

lemma initializePayment_resolved:
  assumes "orders w (req_orderId rq) = Some ord"
    and "order_user ord = user_id usr" and "\<not> isPaid ord"
    and "findOne (active (req_orderId rq)) (payments w) = None"
    and "transaction_initialize gw (charge_request now usr rq ord) = Resolves r"
  shows "initializePayment gw now fresh usr rq w =
           (let ref = generate_reference (req_orderId rq) now;
                w1 = called (charge_request now usr rq ord) (Info (''Payment initialized: '' @ ref)) w
            in if \<not> response_status r
               then (w1, Inl (AppError ''Failed to initialize payment'' 500))
               else (case response_data r of
                       None \<Rightarrow> (w1, Inl (Thrown (TypeError ''authorization_url'')))
                     | Some d \<Rightarrow>
                         (case create_payment (pending_payment fresh usr rq ord ref d) w1 of
                            Inl rejected \<Rightarrow> (w1, Inl rejected)
                          | Inr w2 \<Rightarrow>
                              (w2, Inr (initialized (pending_payment fresh usr rq ord ref d) d ref)))))"
  using assms
  by (simp add: initializePayment_def initializeTransaction_def Let_def active_def[abs_def]
      charge_request_def called_def split: option.splits cong: sum.case_cong)

text \<open>The pending payment of an order is valid when the total and the currency are.\<close>

lemma generate_reference_nonempty [simp]: "generate_reference oid now \<noteq> []"
  by (simp add: generate_reference_def)

lemma validate_pending_payment:
  "validate (pending_payment fresh usr rq ord (generate_reference oid now) d) = [] \<longleftrightarrow>
     0 \<le> totalPrice ord \<and> js_or (req_currency rq) ''NGN'' \<in> set currency_enum"
  by (auto simp: validate_def pending_payment_def split: if_splits)

lemma create_payment_cases:
  obtains (rejected) err where "create_payment p w = Inl err"
  | (created) "validate p = []" "reference p \<notin> set (map reference (payments w))"
      "create_payment p w = Inr (add_payment p w)"
  by (cases "validate p = []"; cases "reference p \<in> set (map reference (payments w))")
     (simp_all add: create_payment_def)

text \<open>
  What one call of initializePayment does to the world: nothing; or a gateway call that
  failed, and nothing else; or a gateway call that succeeded and then a rejected create,
  and nothing else; or a gateway call that succeeded and then one created row.
\<close>

lemma initializePayment_outcome:
  obtains
    (early) "fst (initializePayment gw now fresh usr rq w) = w"
  | (failed) ord w1 where "orders w (req_orderId rq) = Some ord"
      "gateway_failed (transaction_initialize gw (charge_request now usr rq ord))"
      "gateway_calls w1 = gateway_calls w @ [TransactionInitialize (charge_request now usr rq ord)]"
      "payments w1 = payments w" "orders w1 = orders w" "db_writes w1 = db_writes w"
      "initializePayment gw now fresh usr rq w =
         (w1, case transaction_initialize gw (charge_request now usr rq ord) of
                Rejects m \<Rightarrow> Inl (Thrown (''Payment initialization failed: '' @ m))
              | Resolves r \<Rightarrow> Inl (AppError ''Failed to initialize payment'' 500))"
  | (not_created) ord w1 r err where "orders w (req_orderId rq) = Some ord"
      "transaction_initialize gw (charge_request now usr rq ord) = Resolves r" "response_status r"
      "gateway_calls w1 = gateway_calls w @ [TransactionInitialize (charge_request now usr rq ord)]"
      "payments w1 = payments w" "orders w1 = orders w" "db_writes w1 = db_writes w"
      "initializePayment gw now fresh usr rq w = (w1, Inl err)"
  | (created) ord w1 r d where "orders w (req_orderId rq) = Some ord"
      "order_user ord = user_id usr" "\<not> isPaid ord"
      "findOne (active (req_orderId rq)) (payments w) = None"
      "transaction_initialize gw (charge_request now usr rq ord) = Resolves r" "response_status r"
      "response_data r = Some d"
      "gateway_calls w1 = gateway_calls w @ [TransactionInitialize (charge_request now usr rq ord)]"
      "payments w1 = payments w" "orders w1 = orders w" "db_writes w1 = db_writes w"
      "validate (pending_payment fresh usr rq ord (generate_reference (req_orderId rq) now) d) = []"
      "generate_reference (req_orderId rq) now \<notin> set (map reference (payments w))"
      "initializePayment gw now fresh usr rq w =
         (add_payment (pending_payment fresh usr rq ord (generate_reference (req_orderId rq) now) d) w1,
          Inr (initialized (pending_payment fresh usr rq ord (generate_reference (req_orderId rq) now) d) d
                 (generate_reference (req_orderId rq) now)))"
proof (cases "orders w (req_orderId rq)")
  case None
  then show ?thesis using early by (simp add: initializePayment_no_order)
next
  case (Some ord)
  note ord = Some
  show ?thesis
  proof (cases "order_user ord = user_id usr")
    case False
    with ord show ?thesis using early by (simp add: initializePayment_not_owner)
  next
    case True
    note own = True
    show ?thesis
    proof (cases "isPaid ord")
      case True
      with ord own show ?thesis using early by (simp add: initializePayment_paid)
    next
      case False
      note unpaid = False
      show ?thesis
      proof (cases "findOne (active (req_orderId rq)) (payments w)")
        case (Some i)
        with ord own unpaid show ?thesis using early by (simp add: initializePayment_existing)
      next
        case None
        note none = None
        let ?ps = "charge_request now usr rq ord"
        show ?thesis
        proof (cases "transaction_initialize gw ?ps")
          case (Rejects m)
          from initializePayment_rejected[OF ord own unpaid none Rejects, of fresh] Rejects ord
          show ?thesis by (intro failed[of ord]) simp_all
        next
          case (Resolves r)
          note eq = initializePayment_resolved[OF ord own unpaid none Resolves, of fresh]
          let ?ref = "generate_reference (req_orderId rq) now"
          let ?w1 = "called ?ps (Info (''Payment initialized: '' @ ?ref)) w"
          show ?thesis
          proof (cases "response_status r")
            case False
            with eq Resolves ord show ?thesis by (intro failed[of ord]) (simp_all add: Let_def)
          next
            case True
            show ?thesis
            proof (cases "response_data r")
              case None
              with eq True Resolves ord show ?thesis
                by (intro not_created[of ord r ?w1]) (simp_all add: Let_def)
            next
              case (Some d)
              let ?p = "pending_payment fresh usr rq ord ?ref d"
              show ?thesis
              proof (cases rule: create_payment_cases[of ?p ?w1])
                case (rejected err)
                with eq True Some Resolves ord show ?thesis
                  by (intro not_created[of ord r ?w1 err]) (simp_all add: Let_def)
              next
                case created
                have "reference ?p = ?ref" by (simp add: pending_payment_def)
                with created(2) have "?ref \<notin> set (map reference (payments w))" by simp
                with created(1,3) eq True Some Resolves ord own unpaid none show ?thesis
                  by (intro that(4)[of ord r d ?w1]) (simp_all add: Let_def)
              qed
            qed
          qed
        qed
      qed
    qed
  qed
qed

text \<open>An order with no pending and no successful payment, and a gateway that answers.\<close>

lemma initializePayment_created:
  assumes "orders w (req_orderId rq) = Some ord"
    and "order_user ord = user_id usr" and "\<not> isPaid ord"
    and "findOne (active (req_orderId rq)) (payments w) = None"
    and "transaction_initialize gw (charge_request now usr rq ord) = Resolves r"
    and "response_status r" and "response_data r = Some d"
    and "0 \<le> totalPrice ord" and "js_or (req_currency rq) ''NGN'' \<in> set currency_enum"
    and "generate_reference (req_orderId rq) now \<notin> set (map reference (payments w))"
  shows "initializePayment gw now fresh usr rq w =
           (add_payment (pending_payment fresh usr rq ord (generate_reference (req_orderId rq) now) d)
              (called (charge_request now usr rq ord)
                 (Info (''Payment initialized: '' @ generate_reference (req_orderId rq) now)) w),
            Inr (initialized (pending_payment fresh usr rq ord (generate_reference (req_orderId rq) now) d) d
                   (generate_reference (req_orderId rq) now)))"
proof -
  let ?ref = "generate_reference (req_orderId rq) now"
  let ?p = "pending_payment fresh usr rq ord ?ref d"
  let ?w1 = "called (charge_request now usr rq ord) (Info (''Payment initialized: '' @ ?ref)) w"
  have v: "validate ?p = []" using assms(8,9) by (simp add: validate_pending_payment)
  have r: "reference ?p = ?ref" by (simp add: pending_payment_def)
  have "create_payment ?p ?w1 = Inr (add_payment ?p ?w1)"
    using v r assms(10) by (simp add: create_payment_def)
  then show ?thesis
    unfolding initializePayment_resolved[OF assms(1-5)] using assms(6,7) by (simp add: Let_def)
qed

lemma findOne_active:
  assumes "p \<in> set (payments w)" and "active oid p"
  obtains i where "findOne (active oid) (payments w) = Some i" "i < length (payments w)"
    "active oid (payments w ! i)"
proof -
  from assms have "findOne (active oid) (payments w) \<noteq> None"
    by (auto simp: findOne_None_iff)
  then obtain i where "findOne (active oid) (payments w) = Some i" by blast
  with findOne_SomeD[OF this] that show ?thesis by blast
qed

lemma rows_add_payment:
  "rows oid (add_payment p w) = rows oid w @ (if order p = oid then [p] else [])"
  by (simp add: rows_def)

text \<open>
  C3. Idempotent initialization, for an order that exists and a caller who owns it. When a
  successful payment exists for the order, and the order is flagged paid or has no pending
  payment, the call fails with the 400 of an order already paid and returns the world as
  it was. When the order is unpaid and has a pending payment and no successful one, the
  call returns a pending payment of that order with its reference in a 200 response, and
  returns the world as it was: no gateway call, no new row. Whenever a call returned a
  response, the response carries a pending payment of the order, which is in the ledger,
  and its reference; and a second call for the same order by the same user, whatever the
  gateway, the clock and the rest of the request, returns that payment and that reference
  with a 200 and leaves the world as the first call left it. And two calls in a row for an
  unpaid order with no pending and no successful payment, with a gateway that answers the
  first call, a total that is not negative, a currency of the schema and a reference not
  yet in the ledger: the first call calls the gateway once and creates one row, returned
  with the generated reference in a 201, and the second returns the same payment and
  reference and changes nothing, so the two calls have added exactly one row to the rows
  of the order. The first response carries the authorization URL of the gateway; the
  second carries none, since the strict schema did not store it.
\<close>

theorem initialize_idempotent:
  assumes "orders w (req_orderId rq) = Some ord" and "order_user ord = user_id usr"
    and "req_orderId rq' = req_orderId rq"
  shows "((\<exists>p\<in>set (payments w). order p = req_orderId rq \<and> status p = success) \<and>
          (isPaid ord \<or> (\<forall>p\<in>set (payments w). order p = req_orderId rq \<longrightarrow> status p \<noteq> pending)) \<longrightarrow>
            initializePayment gw now fresh usr rq w
              = (w, Inl (AppError ''Order is already paid'' 400)) \<or>
            initializePayment gw now fresh usr rq w
              = (w, Inl (AppError ''Payment already completed for this order'' 400))) \<and>
         (\<not> isPaid ord \<and> (\<exists>p\<in>set (payments w). order p = req_orderId rq \<and> status p = pending) \<and>
          (\<forall>p\<in>set (payments w). order p = req_orderId rq \<longrightarrow> status p \<noteq> success) \<longrightarrow>
            (\<exists>p r. p \<in> set (payments w) \<and> order p = req_orderId rq \<and> status p = pending \<and>
               initializePayment gw now fresh usr rq w = (w, Inr r) \<and> res_code r = 200 \<and>
               res_payment r = Some p \<and> res_reference r = Some (reference p))) \<and>
         (\<forall>w1 r1. initializePayment gw now fresh usr rq w = (w1, Inr r1) \<longrightarrow>
            (\<exists>p r2. p \<in> set (payments w1) \<and> order p = req_orderId rq \<and> status p = pending \<and>
               res_payment r1 = Some p \<and> res_reference r1 = Some (reference p) \<and>
               initializePayment gw' now' fresh' usr rq' w1 = (w1, Inr r2) \<and> res_code r2 = 200 \<and>
               res_reference r2 = res_reference r1 \<and> res_payment r2 = res_payment r1) \<and>
            (payments w1 = payments w \<or> (\<exists>p. payments w1 = payments w @ [p]))) \<and>
         (\<not> isPaid ord \<and>
          (\<forall>p\<in>set (payments w). order p = req_orderId rq \<longrightarrow> status p \<noteq> pending \<and> status p \<noteq> success) \<and>
          transaction_initialize gw (charge_request now usr rq ord) = Resolves r \<and>
          response_status r \<and> response_data r = Some d \<and>
          0 \<le> totalPrice ord \<and> js_or (req_currency rq) ''NGN'' \<in> set currency_enum \<and>
          generate_reference (req_orderId rq) now \<notin> set (map reference (payments w)) \<longrightarrow>
            (\<exists>w1 r1 r2 p.
               initializePayment gw now fresh usr rq w = (w1, Inr r1) \<and> res_code r1 = 201 \<and>
               res_payment r1 = Some p \<and>
               res_reference r1 = Some (generate_reference (req_orderId rq) now) \<and>
               reference p = generate_reference (req_orderId rq) now \<and>
               initializePayment gw' now' fresh' usr rq' w1 = (w1, Inr r2) \<and> res_code r2 = 200 \<and>
               res_payment r2 = Some p \<and> res_reference r2 = res_reference r1 \<and>
               res_authorizationUrl r1 = data_authorization_url d \<and> res_authorizationUrl r2 = None \<and>
               payments w1 = payments w @ [p] \<and>
               rows (req_orderId rq) w1 = rows (req_orderId rq) w @ [p] \<and>
               gateway_calls w1
                 = gateway_calls w @ [TransactionInitialize (charge_request now usr rq ord)]))"
proof (intro conjI impI allI)
  let ?oid = "req_orderId rq"
  assume a: "(\<exists>p\<in>set (payments w). order p = ?oid \<and> status p = success) \<and>
          (isPaid ord \<or> (\<forall>p\<in>set (payments w). order p = ?oid \<longrightarrow> status p \<noteq> pending))"
  show "initializePayment gw now fresh usr rq w = (w, Inl (AppError ''Order is already paid'' 400)) \<or>
        initializePayment gw now fresh usr rq w
          = (w, Inl (AppError ''Payment already completed for this order'' 400))"
  proof (cases "isPaid ord")
    case True
    with assms show ?thesis by (simp add: initializePayment_paid)
  next
    case False
    with a have np: "\<forall>p\<in>set (payments w). order p = ?oid \<longrightarrow> status p \<noteq> pending" by blast
    from a obtain p where "p \<in> set (payments w)" "active ?oid p" by (auto simp: active_def)
    then obtain i where i: "findOne (active ?oid) (payments w) = Some i" "i < length (payments w)"
      "active ?oid (payments w ! i)" by (rule findOne_active)
    with np have "status (payments w ! i) = success" by (auto simp: active_def)
    with assms False i show ?thesis by (simp add: initializePayment_existing)
  qed
next
  let ?oid = "req_orderId rq"
  assume a: "\<not> isPaid ord \<and> (\<exists>p\<in>set (payments w). order p = ?oid \<and> status p = pending) \<and>
          (\<forall>p\<in>set (payments w). order p = ?oid \<longrightarrow> status p \<noteq> success)"
  then obtain p where "p \<in> set (payments w)" "active ?oid p" by (auto simp: active_def)
  then obtain i where i: "findOne (active ?oid) (payments w) = Some i" "i < length (payments w)"
      "active ?oid (payments w ! i)" by (rule findOne_active)
  with a have st: "status (payments w ! i) = pending" "order (payments w ! i) = ?oid"
    by (auto simp: active_def)
  from assms a i st
  have "initializePayment gw now fresh usr rq w = (w, Inr (already_initialized (payments w ! i)))"
    by (simp add: initializePayment_existing)
  with i st show "\<exists>p r. p \<in> set (payments w) \<and> order p = ?oid \<and> status p = pending \<and>
               initializePayment gw now fresh usr rq w = (w, Inr r) \<and> res_code r = 200 \<and>
               res_payment r = Some p \<and> res_reference r = Some (reference p)"
    by (intro exI[of _ "payments w ! i"] exI[of _ "already_initialized (payments w ! i)"])
       (simp add: already_initialized_def json_def)
next
  fix w1 r1
  let ?oid = "req_orderId rq"
  assume first: "initializePayment gw now fresh usr rq w = (w1, Inr r1)"
  have unpaid: "\<not> isPaid ord"
    using first assms by (auto simp: initializePayment_paid)
  have "(\<exists>p r2. p \<in> set (payments w1) \<and> order p = ?oid \<and> status p = pending \<and>
               res_payment r1 = Some p \<and> res_reference r1 = Some (reference p) \<and>
               initializePayment gw' now' fresh' usr rq' w1 = (w1, Inr r2) \<and> res_code r2 = 200 \<and>
               res_reference r2 = res_reference r1 \<and> res_payment r2 = res_payment r1) \<and>
            (payments w1 = payments w \<or> (\<exists>p. payments w1 = payments w @ [p]))"
  proof (cases "findOne (active ?oid) (payments w)")
    case (Some i)
    from findOne_SomeD[OF Some] have i: "i < length (payments w)" "active ?oid (payments w ! i)"
      by simp_all
    from Some first assms unpaid have st: "status (payments w ! i) \<noteq> success" and w1: "w1 = w"
      and r1: "r1 = already_initialized (payments w ! i)"
      by (auto simp: initializePayment_existing split: if_splits)
    from i st have p: "payments w ! i \<in> set (payments w)" "order (payments w ! i) = ?oid"
      "status (payments w ! i) = pending" by (auto simp: active_def)
    from assms unpaid Some st
    have "initializePayment gw' now' fresh' usr rq' w = (w, Inr (already_initialized (payments w ! i)))"
      by (simp add: initializePayment_existing[where rq=rq'])
    with w1 r1 p show ?thesis
      by (intro conjI exI[of _ "payments w ! i"] exI[of _ "already_initialized (payments w ! i)"])
         (simp_all add: already_initialized_def json_def)
  next
    case None
    show ?thesis
    proof (cases "transaction_initialize gw (charge_request now usr rq ord)")
      case (Rejects m)
      from initializePayment_rejected[OF assms(1,2) unpaid None Rejects, of fresh] first
      show ?thesis by simp
    next
      case (Resolves r')
      let ?ref = "generate_reference ?oid now"
      let ?w' = "called (charge_request now usr rq ord) (Info (''Payment initialized: '' @ ?ref)) w"
      note eq = initializePayment_resolved[OF assms(1,2) unpaid None Resolves, of fresh]
      from eq first have ok: "response_status r'"
        by (auto simp: Let_def split: if_splits)
      from eq first ok obtain d' where d: "response_data r' = Some d'"
        by (cases "response_data r'") (auto simp: Let_def)
      let ?p = "pending_payment fresh usr rq ord ?ref d'"
      from eq first ok d have c: "create_payment ?p ?w' = Inr w1"
        and r1: "r1 = initialized ?p d' ?ref" by (auto simp: Let_def split: sum.splits)
      from c have w1: "w1 = add_payment ?p ?w'"
        by (auto simp: create_payment_def split: if_splits)
      have act: "active ?oid ?p" by (simp add: active_def pending_payment_def)
      have f0: "findOne (active ?oid) (payments ?w') = None" using None by simp
      from findOne_snoc[OF f0 act]
      have f: "findOne (active ?oid) (payments w1) = Some (length (payments w))"
        by (simp add: w1)
      have nth: "payments w1 ! length (payments w) = ?p"
        by (simp add: w1)
      have o1: "orders w1 (req_orderId rq') = Some ord"
        using assms by (simp add: w1)
      have st: "status ?p \<noteq> success" by (simp add: pending_payment_def)
      from o1 assms unpaid f nth st
      have second: "initializePayment gw' now' fresh' usr rq' w1 = (w1, Inr (already_initialized ?p))"
        by (simp add: initializePayment_existing[where rq=rq' and ord=ord and i="length (payments w)"])
      have pay: "payments w1 = payments w @ [?p]" by (simp add: w1)
      have "?p \<in> set (payments w1)" "order ?p = ?oid" "status ?p = pending"
        "res_payment r1 = Some ?p" "res_reference r1 = Some (reference ?p)"
        by (simp_all add: pay r1 initialized_def json_def pending_payment_def)
      with second pay show ?thesis
        by (intro conjI exI[of _ ?p] exI[of _ "already_initialized ?p"])
           (simp_all add: already_initialized_def json_def)
    qed
  qed
  then show "\<exists>p r2. p \<in> set (payments w1) \<and> order p = ?oid \<and> status p = pending \<and>
               res_payment r1 = Some p \<and> res_reference r1 = Some (reference p) \<and>
               initializePayment gw' now' fresh' usr rq' w1 = (w1, Inr r2) \<and> res_code r2 = 200 \<and>
               res_reference r2 = res_reference r1 \<and> res_payment r2 = res_payment r1"
    and "payments w1 = payments w \<or> (\<exists>p. payments w1 = payments w @ [p])" by blast+
next
  let ?oid = "req_orderId rq"
  let ?ref = "generate_reference ?oid now"
  let ?p = "pending_payment fresh usr rq ord ?ref d"
  let ?w' = "called (charge_request now usr rq ord) (Info (''Payment initialized: '' @ ?ref)) w"
  let ?w1 = "add_payment ?p ?w'"
  assume a: "\<not> isPaid ord \<and>
          (\<forall>p\<in>set (payments w). order p = ?oid \<longrightarrow> status p \<noteq> pending \<and> status p \<noteq> success) \<and>
          transaction_initialize gw (charge_request now usr rq ord) = Resolves r \<and>
          response_status r \<and> response_data r = Some d \<and>
          0 \<le> totalPrice ord \<and> js_or (req_currency rq) ''NGN'' \<in> set currency_enum \<and>
          ?ref \<notin> set (map reference (payments w))"
  then have unpaid: "\<not> isPaid ord"
    and g: "transaction_initialize gw (charge_request now usr rq ord) = Resolves r"
      "response_status r" "response_data r = Some d"
    and v: "0 \<le> totalPrice ord" "js_or (req_currency rq) ''NGN'' \<in> set currency_enum"
      "?ref \<notin> set (map reference (payments w))" by blast+
  from a have None: "findOne (active ?oid) (payments w) = None"
    by (auto simp: findOne_None_iff active_def)
  note first = initializePayment_created[OF assms(1,2) unpaid None g v, of fresh]
  have act: "active ?oid ?p" by (simp add: active_def pending_payment_def)
  have f0: "findOne (active ?oid) (payments ?w') = None" using None by simp
  from findOne_snoc[OF f0 act]
  have f: "findOne (active ?oid) (payments ?w1) = Some (length (payments w))" by simp
  have nth: "payments ?w1 ! length (payments w) = ?p" by simp
  have o1: "orders ?w1 (req_orderId rq') = Some ord" using assms by simp
  have st: "status ?p \<noteq> success" by (simp add: pending_payment_def)
  from o1 assms unpaid f nth st
  have second: "initializePayment gw' now' fresh' usr rq' ?w1 = (?w1, Inr (already_initialized ?p))"
    by (simp add: initializePayment_existing[where rq=rq' and ord=ord and i="length (payments w)"])
  have rw: "rows ?oid ?w1 = rows ?oid w @ [?p]"
    by (simp add: rows_add_payment) (simp add: rows_def pending_payment_def)
  show "\<exists>w1 r1 r2 p.
               initializePayment gw now fresh usr rq w = (w1, Inr r1) \<and> res_code r1 = 201 \<and>
               res_payment r1 = Some p \<and>
               res_reference r1 = Some ?ref \<and> reference p = ?ref \<and>
               initializePayment gw' now' fresh' usr rq' w1 = (w1, Inr r2) \<and> res_code r2 = 200 \<and>
               res_payment r2 = Some p \<and> res_reference r2 = res_reference r1 \<and>
               res_authorizationUrl r1 = data_authorization_url d \<and> res_authorizationUrl r2 = None \<and>
               payments w1 = payments w @ [p] \<and>
               rows ?oid w1 = rows ?oid w @ [p] \<and>
               gateway_calls w1
                 = gateway_calls w @ [TransactionInitialize (charge_request now usr rq ord)]"
    using first second rw
    by (intro exI[of _ ?w1] exI[of _ "initialized ?p d ?ref"] exI[of _ "already_initialized ?p"]
        exI[of _ ?p])
       (simp add: initialized_def already_initialized_def json_def pending_payment_def strict_def)
qed

text \<open>
  The two calls of the specification's scenario, from an order with no payment: the first
  creates the one row of the order, with the reference \<^verbatim>\<open>ORDER-O1-7\<close>, and the
  second returns it. And the two other cases: a pending payment is returned, and an order
  with a successful payment is refused.
\<close>

theorem initialize_idempotent_witness:
  "(\<exists>w1 r1 r2 p.
      initializePayment (ex_gateway ex_success) 7 ''P2'' ex_user ex_request ex_new_world = (w1, Inr r1) \<and>
      res_code r1 = 201 \<and> res_payment r1 = Some p \<and> res_reference r1 = Some ''ORDER-O1-7'' \<and>
      reference p = ''ORDER-O1-7'' \<and>
      initializePayment ex_down 8 ''P3'' ex_user ex_request w1 = (w1, Inr r2) \<and> res_code r2 = 200 \<and>
      res_payment r2 = Some p \<and> res_reference r2 = res_reference r1 \<and>
      payments w1 = [p] \<and> rows ''O1'' w1 = [p]) \<and>
   (\<exists>p r. p \<in> set (payments ex_world) \<and> order p = ''O1'' \<and> status p = pending \<and>
      initializePayment ex_down 7 ''P2'' ex_user ex_request ex_world = (ex_world, Inr r) \<and>
      res_code r = 200 \<and> res_payment r = Some p \<and> res_reference r = Some (reference p)) \<and>
   (initializePayment ex_down 7 ''P2'' ex_user ex_request ex_paid_world
      = (ex_paid_world, Inl (AppError ''Order is already paid'' 400)) \<or>
    initializePayment ex_down 7 ''P2'' ex_user ex_request ex_paid_world
      = (ex_paid_world, Inl (AppError ''Payment already completed for this order'' 400)))"
proof -
  have 1: "orders ex_world (req_orderId ex_request) = Some ex_order" by (simp add: ex_defs)
  have p1: "orders ex_paid_world (req_orderId ex_request) = Some ex_order" by (simp add: ex_defs)
  have n1: "orders ex_new_world (req_orderId ex_request) = Some ex_order" by (simp add: ex_defs)
  have 2: "order_user ex_order = user_id ex_user" by (simp add: ex_defs)
  have 3: "req_orderId ex_request = req_orderId ex_request" by simp
  have o: "req_orderId ex_request = ''O1''" by (simp add: ex_defs)
  have g: "generate_reference ''O1'' 7 = ''ORDER-O1-7''"
    by (simp add: generate_reference_def digit_def)
  have e: "payments ex_new_world = []" "rows ''O1'' ex_new_world = []"
    by (simp_all add: rows_def ex_defs)
  have a: "\<not> isPaid ex_order \<and>
      (\<exists>p\<in>set (payments ex_world). order p = req_orderId ex_request \<and> status p = pending) \<and>
      (\<forall>p\<in>set (payments ex_world). order p = req_orderId ex_request \<longrightarrow> status p \<noteq> success)"
    by (simp add: ex_defs)
  have b: "(\<exists>p\<in>set (payments ex_paid_world). order p = req_orderId ex_request \<and> status p = success) \<and>
      (isPaid ex_order \<or>
       (\<forall>p\<in>set (payments ex_paid_world). order p = req_orderId ex_request \<longrightarrow> status p \<noteq> pending))"
    by (simp add: ex_defs)
  have c: "\<not> isPaid ex_order \<and>
      (\<forall>p\<in>set (payments ex_new_world). order p = req_orderId ex_request \<longrightarrow>
          status p \<noteq> pending \<and> status p \<noteq> success) \<and>
      transaction_initialize (ex_gateway ex_success) (charge_request 7 ex_user ex_request ex_order)
        = Resolves \<lparr>response_status = True, response_data = Some ex_success\<rparr> \<and>
      response_status \<lparr>response_status = True, response_data = Some ex_success\<rparr> \<and>
      response_data \<lparr>response_status = True, response_data = Some ex_success\<rparr> = Some ex_success \<and>
      0 \<le> totalPrice ex_order \<and> js_or (req_currency ex_request) ''NGN'' \<in> set currency_enum \<and>
      generate_reference (req_orderId ex_request) 7 \<notin> set (map reference (payments ex_new_world))"
    by (simp add: ex_defs currency_enum_def)
  note t = initialize_idempotent[OF 1 2 3, where gw=ex_down and now=7 and fresh="''P2''"]
  note u = initialize_idempotent[OF p1 2 3, where gw=ex_down and now=7 and fresh="''P2''"]
  note n = initialize_idempotent[OF n1 2 3, where gw="ex_gateway ex_success" and now=7
      and fresh="''P2''" and gw'=ex_down and now'=8 and fresh'="''P3''"]
  from n[THEN conjunct2, THEN conjunct2, THEN conjunct2, THEN mp, OF c]
  obtain w1 r1 r2 p where x:
      "initializePayment (ex_gateway ex_success) 7 ''P2'' ex_user ex_request ex_new_world = (w1, Inr r1)"
      "res_code r1 = 201" "res_payment r1 = Some p" "res_reference r1 = Some ''ORDER-O1-7''"
      "reference p = ''ORDER-O1-7''"
      "initializePayment ex_down 8 ''P3'' ex_user ex_request w1 = (w1, Inr r2)" "res_code r2 = 200"
      "res_payment r2 = Some p" "res_reference r2 = res_reference r1"
      "res_authorizationUrl r2 = None"
      "payments w1 = [] @ [p]" "rows ''O1'' w1 = [] @ [p]"
    unfolding o g e by blast
  have first: "\<exists>w1 r1 r2 p.
      initializePayment (ex_gateway ex_success) 7 ''P2'' ex_user ex_request ex_new_world = (w1, Inr r1) \<and>
      res_code r1 = 201 \<and> res_payment r1 = Some p \<and> res_reference r1 = Some ''ORDER-O1-7'' \<and>
      reference p = ''ORDER-O1-7'' \<and>
      initializePayment ex_down 8 ''P3'' ex_user ex_request w1 = (w1, Inr r2) \<and> res_code r2 = 200 \<and>
      res_payment r2 = Some p \<and> res_reference r2 = res_reference r1 \<and>
      payments w1 = [p] \<and> rows ''O1'' w1 = [p]"
    using x by (intro exI[of _ w1] exI[of _ r1] exI[of _ r2] exI[of _ p]) simp
  from first t[THEN conjunct2, THEN conjunct1, THEN mp, OF a] u[THEN conjunct1, THEN mp, OF b]
  show ?thesis unfolding o by blast
qed

text \<open>
  C4. Signature gate. When a secret is configured and the header is not the digest of the
  body (a missing header never is), handleWebhook ends in the 400 error
  \<^verbatim>\<open>Invalid signature\<close>; the world it returns differs from the one it was given by a
  logged warning only, so no payment, no order, no write and no gateway call. The
  result does not mention the body: neither the event nor the data is read.
\<close>

theorem signature_gate:
  assumes "secret e = Some k"
    and "signature \<noteq> Some (hmac_sha512_hex lib k (JSON_stringify lib body))"
  shows "handleWebhook lib e signature body w =
           (logger (Warn ''Invalid webhook signature received'') w,
            Inl (AppError ''Invalid signature'' 400)) \<and>
         payments (fst (handleWebhook lib e signature body w)) = payments w \<and>
         orders (fst (handleWebhook lib e signature body w)) = orders w \<and>
         db_writes (fst (handleWebhook lib e signature body w)) = db_writes w \<and>
         gateway_calls (fst (handleWebhook lib e signature body w)) = gateway_calls w"
proof -
  have "validateWebhookSignature lib e signature body = Inr False"
    using assms by (auto simp: validateWebhookSignature_def)
  then show ?thesis
    by (simp add: handleWebhook_def)
qed

theorem signature_gate_witness:
  "handleWebhook ex_library ex_env None \<lparr>body_event = ''charge.success'', body_data = ex_success\<rparr> ex_world =
     (logger (Warn ''Invalid webhook signature received'') ex_world,
      Inl (AppError ''Invalid signature'' 400)) \<and>
   payments (fst (handleWebhook ex_library ex_env None
       \<lparr>body_event = ''charge.success'', body_data = ex_success\<rparr> ex_world)) = payments ex_world \<and>
   orders (fst (handleWebhook ex_library ex_env None
       \<lparr>body_event = ''charge.success'', body_data = ex_success\<rparr> ex_world)) = orders ex_world"
proof -
  have 1: "secret ex_env = Some ''sk_''" by (simp add: secret_def ex_defs)
  have 2: "None \<noteq> Some (hmac_sha512_hex ex_library ''sk_''
      (JSON_stringify ex_library \<lparr>body_event = ''charge.success'', body_data = ex_success\<rparr>))"
    by simp
  from signature_gate[OF 1 2, of ex_world] show ?thesis by blast
qed

text \<open>
  C5. All-or-nothing initialization. When a call of initializePayment called the gateway
  and the gateway step failed (the call was rejected, or the response's status was false),
  no payment was created, nothing was written, and the caller gets the error: the thrown
  \<^verbatim>\<open>Payment initialization failed\<close> or the 500 \<^verbatim>\<open>Failed to initialize payment\<close>.
  And when a call changed the ledger, the gateway had been called and had answered with
  a true status.
\<close>

theorem initialize_all_or_nothing:
  assumes "initializePayment gw now fresh usr rq w = (w', out)"
  shows "(gateway_calls w' = gateway_calls w @ [TransactionInitialize ps] \<and>
          gateway_failed (transaction_initialize gw ps) \<longrightarrow>
            payments w' = payments w \<and> db_writes w' = db_writes w \<and> orders w' = orders w \<and>
            out = (case transaction_initialize gw ps of
                     Rejects m \<Rightarrow> Inl (Thrown (''Payment initialization failed: '' @ m))
                   | Resolves r \<Rightarrow> Inl (AppError ''Failed to initialize payment'' 500))) \<and>
         (payments w' \<noteq> payments w \<longrightarrow>
            (\<exists>ps r. gateway_calls w' = gateway_calls w @ [TransactionInitialize ps] \<and>
               transaction_initialize gw ps = Resolves r \<and> response_status r))"
proof (cases rule: initializePayment_outcome[of gw now fresh usr rq w])
  case early
  with assms have "w' = w" by simp
  then show ?thesis by simp
next
  case (failed ord w1)
  with assms have "w' = w1" by simp
  with failed assms show ?thesis by auto
next
  case (not_created ord w1 r err)
  with assms have "w' = w1" by simp
  with not_created assms show ?thesis by auto
next
  case (created ord w1 r d)
  with assms have "w' = add_payment (pending_payment fresh usr rq ord (generate_reference (req_orderId rq) now) d) w1"
    by simp
  with created show ?thesis by auto
qed

theorem initialize_all_or_nothing_witness:
  "payments (fst (initializePayment ex_down 7 ''P2'' ex_user ex_request ex_new_world)) = [] \<and>
   snd (initializePayment ex_down 7 ''P2'' ex_user ex_request ex_new_world)
     = Inl (Thrown ''Payment initialization failed: timeout'')"
proof -
  let ?r = "initializePayment ex_down 7 ''P2'' ex_user ex_request ex_new_world"
  let ?ps = "charge_request 7 ex_user ex_request ex_order"
  have 1: "orders ex_new_world (req_orderId ex_request) = Some ex_order" by (simp add: ex_defs)
  have 2: "order_user ex_order = user_id ex_user" by (simp add: ex_defs)
  have 3: "\<not> isPaid ex_order" by (simp add: ex_defs)
  have 4: "findOne (active (req_orderId ex_request)) (payments ex_new_world) = None"
    by (simp add: ex_defs)
  have 5: "transaction_initialize ex_down ?ps = Rejects ''timeout''" by (simp add: ex_defs)
  note eq = initializePayment_rejected[OF 1 2 3 4 5, of "''P2''"]
  have c: "gateway_calls (fst ?r) = gateway_calls ex_new_world @ [TransactionInitialize ?ps] \<and>
           gateway_failed (transaction_initialize ex_down ?ps)"
    by (simp add: eq 5)
  have r: "?r = (fst ?r, snd ?r)" by simp
  have p: "payments ex_new_world = []" by (simp add: ex_defs)
  from initialize_all_or_nothing[OF r, THEN conjunct1, THEN mp, OF c]
  show ?thesis by (simp add: 5 p)
qed

text \<open>
  C6. Ownership of a poll. When the payment a reference finds belongs to another user,
  verifyPayment ends in the 403 error and returns the world it was given: no gateway call,
  no payment or order changed.
\<close>

theorem polling_ownership:
  assumes "findOne (\<lambda>p. reference p = ref) (payments w) = Some i"
    and "user (payments w ! i) \<noteq> user_id usr"
  shows "verifyPayment lib gw usr ref w = (w, Inl (AppError ''Not authorized to verify this payment'' 403))"
  using assms by (simp add: verifyPayment_def)

theorem polling_ownership_witness:
  "verifyPayment ex_library (ex_gateway ex_success) ex_other ''ORDER-O1-1'' ex_world =
     (ex_world, Inl (AppError ''Not authorized to verify this payment'' 403))"
proof -
  have 1: "findOne (\<lambda>p. reference p = ''ORDER-O1-1'') (payments ex_world) = Some 0"
    by (simp add: ex_defs)
  have 2: "user (payments ex_world ! 0) \<noteq> user_id ex_other" by (simp add: ex_defs)
  from polling_ownership[OF 1 2] show ?thesis .
qed

subsection \<open>The answer to a signed webhook\<close>

text \<open>
  A signed webhook is answered with the 200 unless the event is \<^verbatim>\<open>charge.success\<close>
  or \<^verbatim>\<open>charge.failed\<close>, a payment has its reference, and the schema rejects that
  payment with what the handler assigned to it; then the validation error is the outcome.
\<close>

lemma signed_webhook_answer:
  assumes "validateWebhookSignature lib e signature body = Inr True"
  shows "snd (handleWebhook lib e signature body w) =
     (case findOne (\<lambda>p. Some (reference p) = data_reference (body_data body)) (payments w) of
        None \<Rightarrow> Inr (json 200 ''Webhook processed'' None)
      | Some i \<Rightarrow>
          if body_event body = ''charge.success'' \<and>
             validate (charged lib (body_data body) (payments w ! i)) \<noteq> []
          then Inl (ValidationError (validate (charged lib (body_data body) (payments w ! i))))
          else if body_event body = ''charge.failed'' \<and>
             validate (declined (body_data body) (payments w ! i)) \<noteq> []
          then Inl (ValidationError (validate (declined (body_data body) (payments w ! i))))
          else Inr (json 200 ''Webhook processed'' None))"
proof -
  let ?d = "body_data body"
  let ?find = "findOne (\<lambda>p. Some (reference p) = data_reference ?d) (payments w)"
  show ?thesis
  proof (cases "body_event body = ''charge.success''")
    case True
    note ev = True
    note eq = handleWebhook_charge_success[OF assms ev, of w]
    show ?thesis
    proof (cases ?find)
      case None
      then show ?thesis unfolding eq by (simp add: Let_def handleSuccessfulCharge_missing)
    next
      case (Some i)
      show ?thesis
      proof (cases "validate (charged lib ?d (payments w ! i)) = []")
        case True
        from hook_success_fields(4)[OF Some assms ev True] Some True ev show ?thesis by simp
      next
        case False
        from hook_success_rejected[OF Some assms ev False] Some False ev show ?thesis by simp
      qed
    qed
  next
    case False
    note ns = False
    show ?thesis
    proof (cases "body_event body = ''charge.failed''")
      case False
      with ns assms show ?thesis
        by (simp add: handleWebhook_def Let_def split: option.splits)
    next
      case True
      note eq = handleWebhook_charge_failed[OF assms True, of w]
      show ?thesis
      proof (cases ?find)
        case None
        then show ?thesis unfolding eq by (simp add: Let_def handleFailedCharge_missing)
      next
        case (Some i)
        with True show ?thesis unfolding eq by (simp add: Let_def handleFailedCharge_found)
      qed
    qed
  qed
qed

text \<open>
  A signed webhook whose reference no payment has, or whose event is neither
  \<^verbatim>\<open>charge.success\<close> nor \<^verbatim>\<open>charge.failed\<close>, is answered with the 200 and changes
  no payment and no order and writes nothing.
\<close>

lemma signed_webhook_ignored:
  assumes "validateWebhookSignature lib e signature body = Inr True"
    and "(\<forall>p\<in>set (payments w). Some (reference p) \<noteq> data_reference (body_data body)) \<or>
         (body_event body \<noteq> ''charge.success'' \<and> body_event body \<noteq> ''charge.failed'')"
  shows "snd (handleWebhook lib e signature body w) = Inr (json 200 ''Webhook processed'' None) \<and>
         payments (fst (handleWebhook lib e signature body w)) = payments w \<and>
         orders (fst (handleWebhook lib e signature body w)) = orders w \<and>
         db_writes (fst (handleWebhook lib e signature body w)) = db_writes w"
proof -
  have ack: "snd (handleWebhook lib e signature body w) = Inr (json 200 ''Webhook processed'' None)"
    using assms(2) unfolding signed_webhook_answer[OF assms(1)]
    by (auto simp: findOne_None_iff[symmetric] split: option.splits)
  have same: "payments (fst (handleWebhook lib e signature body w)) = payments w \<and>
         orders (fst (handleWebhook lib e signature body w)) = orders w \<and>
         db_writes (fst (handleWebhook lib e signature body w)) = db_writes w"
  proof (cases rule: handleWebhook_outcome[of lib e signature body w])
    case logged
    then show ?thesis by simp
  next
    case (charged i)
    with assms(2) findOne_SomeD[OF charged(3)] show ?thesis by auto
  next
    case (declined i)
    with assms(2) findOne_SomeD[OF declined(3)] show ?thesis by auto
  qed
  from ack same show ?thesis by blast
qed

text \<open>
  C7. A signed webhook is not always acknowledged. The body is signed, its event is
  \<^verbatim>\<open>charge.success\<close> and its reference is that of the pending payment, paid by Apple
  Pay. The schema has no such payment method: the save of the payment is rejected, and
  the outcome of handleWebhook is the validation error, not the 200; payments and orders
  are what they were. The same event for a reference no payment has, and an event of an
  unknown type, are answered with the 200.
\<close>

theorem signed_webhook_rejected_by_schema:
  "validateWebhookSignature ex_library ex_env (Some ''sk_charge.success'')
     \<lparr>body_event = ''charge.success'', body_data = ex_apple_pay\<rparr> = Inr True \<and>
   snd (handleWebhook ex_library ex_env (Some ''sk_charge.success'')
          \<lparr>body_event = ''charge.success'', body_data = ex_apple_pay\<rparr> ex_world)
     = Inl (ValidationError [''paymentMethod'']) \<and>
   payments (fst (handleWebhook ex_library ex_env (Some ''sk_charge.success'')
          \<lparr>body_event = ''charge.success'', body_data = ex_apple_pay\<rparr> ex_world)) = payments ex_world \<and>
   orders (fst (handleWebhook ex_library ex_env (Some ''sk_charge.success'')
          \<lparr>body_event = ''charge.success'', body_data = ex_apple_pay\<rparr> ex_world)) = orders ex_world \<and>
   snd (handleWebhook ex_library ex_env (Some ''sk_charge.success'')
          \<lparr>body_event = ''charge.success'', body_data = ex_unknown\<rparr> ex_world)
     = Inr (json 200 ''Webhook processed'' None) \<and>
   snd (handleWebhook ex_library ex_env (Some ''sk_refund.processed'')
          \<lparr>body_event = ''refund.processed'', body_data = ex_apple_pay\<rparr> ex_world)
     = Inr (json 200 ''Webhook processed'' None)"
proof -
  let ?body = "\<lparr>body_event = ''charge.success'', body_data = ex_apple_pay\<rparr>"
  let ?unknown = "\<lparr>body_event = ''charge.success'', body_data = ex_unknown\<rparr>"
  let ?other = "\<lparr>body_event = ''refund.processed'', body_data = ex_apple_pay\<rparr>"
  have sig: "validateWebhookSignature ex_library ex_env (Some ''sk_charge.success'') ?body = Inr True"
    by (simp add: validateWebhookSignature_def secret_def ex_defs)
  have sig_unknown: "validateWebhookSignature ex_library ex_env (Some ''sk_charge.success'') ?unknown
      = Inr True"
    by (simp add: validateWebhookSignature_def secret_def ex_defs)
  have sig_other: "validateWebhookSignature ex_library ex_env (Some ''sk_refund.processed'') ?other
      = Inr True"
    by (simp add: validateWebhookSignature_def secret_def ex_defs)
  have f: "findOne (\<lambda>p. Some (reference p) = data_reference (body_data ?body)) (payments ex_world)
      = Some 0"
    by (simp add: ex_defs)
  have ev: "body_event ?body = ''charge.success''" by simp
  have val: "validate (charged ex_library (body_data ?body) (payments ex_world ! 0)) = [''paymentMethod'']"
    by (simp add: validate_def charged_def new_Date_def currency_enum_def paymentMethod_enum_def
        ex_defs)
  then have nv: "validate (charged ex_library (body_data ?body) (payments ex_world ! 0)) \<noteq> []"
    by simp
  note rej = hook_success_rejected[OF f sig ev nv, unfolded val]
  have u: "(\<forall>p\<in>set (payments ex_world). Some (reference p) \<noteq> data_reference (body_data ?unknown)) \<or>
           (body_event ?unknown \<noteq> ''charge.success'' \<and> body_event ?unknown \<noteq> ''charge.failed'')"
    by (simp add: ex_defs)
  have o: "(\<forall>p\<in>set (payments ex_world). Some (reference p) \<noteq> data_reference (body_data ?other)) \<or>
           (body_event ?other \<noteq> ''charge.success'' \<and> body_event ?other \<noteq> ''charge.failed'')"
    by simp
  from sig rej signed_webhook_ignored[OF sig_unknown u] signed_webhook_ignored[OF sig_other o]
  show ?thesis by simp
qed

subsection \<open>Failed verdicts and created rows\<close>

text \<open>
  C9. A failed verdict leaves the order alone. After a resolution whose verdict maps to
  failed, by polling or by webhook, the orders are exactly what they were and no order
  has been saved.
\<close>

theorem failed_verdict_leaves_order:
  assumes "failed_verdict lib e ref r"
  shows "orders (resolve lib e ref r w) = orders w \<and>
         order_saves oid (resolve lib e ref r w) = order_saves oid w"
proof (cases r)
  case (Poll gw usr)
  show ?thesis
  proof (cases rule: verifyPayment_outcome[of lib gw usr ref w])
    case untouched
    with Poll show ?thesis by simp
  next
    case (unanswered l)
    with Poll show ?thesis by (simp add: order_saves_def)
  next
    case (failed i d l)
    with Poll show ?thesis by (auto simp: order_saves_def)
  next
    case (succeeded i d)
    with assms Poll show ?thesis by simp
  qed
next
  case (Hook signature body)
  with assms have sig: "validateWebhookSignature lib e signature body = Inr True"
    and ev: "body_event body = ''charge.failed''" by simp_all
  show ?thesis
  proof (cases rule: handleWebhook_outcome[of lib e signature body w])
    case logged
    with Hook show ?thesis by (simp add: order_saves_def)
  next
    case (charged i)
    with ev show ?thesis by simp
  next
    case (declined i)
    with Hook show ?thesis by (simp add: order_saves_def)
  qed
qed

theorem failed_verdict_leaves_order_witness:
  "orders (resolve ex_library ex_env ''ORDER-O1-1'' (ex_hook ''charge.failed'' ex_failure) ex_world)
     = orders ex_world \<and>
   orders (resolve ex_library ex_env ''ORDER-O1-1'' (Poll (ex_gateway ex_failure) ex_user) ex_world)
     = orders ex_world \<and>
   status_of ''ORDER-O1-1''
     (resolve ex_library ex_env ''ORDER-O1-1'' (Poll (ex_gateway ex_failure) ex_user) ex_world) = Some failed"
proof -
  have 1: "failed_verdict ex_library ex_env ''ORDER-O1-1'' (ex_hook ''charge.failed'' ex_failure)"
    by (simp add: validateWebhookSignature_def secret_def ex_defs)
  have 2: "failed_verdict ex_library ex_env ''ORDER-O1-1'' (Poll (ex_gateway ex_failure) ex_user)"
    by (simp add: ex_defs)
  have f: "findOne (\<lambda>p. reference p = ''ORDER-O1-1'') (payments ex_world) = Some 0"
    by (simp add: ex_defs)
  have own: "user (payments ex_world ! 0) = user_id ex_user" by (simp add: ex_defs)
  have st: "status (payments ex_world ! 0) \<noteq> success" by (simp add: ex_defs)
  have v: "verdict ''ORDER-O1-1'' (Poll (ex_gateway ex_failure) ex_user) = Some ex_failure"
    by (simp add: ex_defs)
  have val: "validate (verified ex_failure (payments ex_world ! 0)) = []"
    by (simp add: validate_def verified_def currency_enum_def ex_defs)
  have ns: "data_status ex_failure \<noteq> Some ''success''" by (simp add: ex_defs)
  have 3: "status_of ''ORDER-O1-1''
     (resolve ex_library ex_env ''ORDER-O1-1'' (Poll (ex_gateway ex_failure) ex_user) ex_world) = Some failed"
    unfolding resolve.simps verifyPayment_answered[OF f own st v]
    using ns val f by (simp add: Let_def save_payment_def status_of_def ex_world_def)
  from failed_verdict_leaves_order[OF 1, where w=ex_world]
    failed_verdict_leaves_order[OF 2, where w=ex_world] 3
  show ?thesis by blast
qed

text \<open>
  C10. The row initializePayment creates. Whenever a call changed the ledger, it appended
  one payment, returned in a 201 response: pending, for the requested order, owned by the
  order's user (who is the caller), with the order's total as its amount and the
  requested currency, which is \<^verbatim>\<open>NGN\<close> when none (or an empty one) was given. The
  gateway was called once, with \<^verbatim>\<open>toKobo\<close> of that amount.
\<close>

theorem created_payment:
  assumes "initializePayment gw now fresh usr rq w = (w', out)"
    and "payments w' \<noteq> payments w"
  shows "\<exists>p ord ps r. payments w' = payments w @ [p] \<and> out = Inr r \<and> res_code r = 201 \<and>
           res_payment r = Some p \<and>
           orders w (req_orderId rq) = Some ord \<and> order p = req_orderId rq \<and>
           status p = pending \<and> amount p = totalPrice ord \<and>
           user p = order_user ord \<and> user p = user_id usr \<and>
           currency p = (case req_currency rq of
                           None \<Rightarrow> ''NGN'' | Some c \<Rightarrow> if c = [] then ''NGN'' else c) \<and>
           gateway_calls w' = gateway_calls w @ [TransactionInitialize ps] \<and>
           init_amount ps = toKobo (amount p)"
proof (cases rule: initializePayment_outcome[of gw now fresh usr rq w])
  case early
  with assms show ?thesis by simp
next
  case (failed ord w1)
  with assms show ?thesis by simp
next
  case (not_created ord w1 r err)
  with assms show ?thesis by simp
next
  case (created ord w1 r d)
  let ?p = "pending_payment fresh usr rq ord (generate_reference (req_orderId rq) now) d"
  from created assms have w': "w' = add_payment ?p w1"
    and out: "out = Inr (initialized ?p d (generate_reference (req_orderId rq) now))" by simp_all
  have cur: "currency ?p = (case req_currency rq of
                           None \<Rightarrow> ''NGN'' | Some c \<Rightarrow> if c = [] then ''NGN'' else c)"
    by (cases "req_currency rq") (simp_all add: pending_payment_def)
  have "init_amount (charge_request now usr rq ord) = toKobo (amount ?p)"
    by (simp add: charge_request_def transaction_params_def toKobo_def pending_payment_def)
  with w' out created cur show ?thesis
    by (intro exI[of _ ?p] exI[of _ ord] exI[of _ "charge_request now usr rq ord"]
        exI[of _ "initialized ?p d (generate_reference (req_orderId rq) now)"])
       (simp add: pending_payment_def initialized_def json_def)
qed

theorem created_payment_witness:
  "\<exists>p ord ps r. payments (fst (initializePayment (ex_gateway ex_success) 7 ''P2'' ex_user ex_request
                                  ex_new_world)) = payments ex_new_world @ [p] \<and>
     snd (initializePayment (ex_gateway ex_success) 7 ''P2'' ex_user ex_request ex_new_world) = Inr r \<and>
     res_code r = 201 \<and> res_payment r = Some p \<and>
     orders ex_new_world (req_orderId ex_request) = Some ord \<and> order p = req_orderId ex_request \<and>
     status p = pending \<and> amount p = totalPrice ord \<and>
     user p = order_user ord \<and> user p = user_id ex_user \<and>
     currency p = (case req_currency ex_request of
                     None \<Rightarrow> ''NGN'' | Some c \<Rightarrow> if c = [] then ''NGN'' else c) \<and>
     gateway_calls (fst (initializePayment (ex_gateway ex_success) 7 ''P2'' ex_user ex_request
                           ex_new_world)) = gateway_calls ex_new_world @ [TransactionInitialize ps] \<and>
     init_amount ps = toKobo (amount p)"
proof -
  let ?r = "initializePayment (ex_gateway ex_success) 7 ''P2'' ex_user ex_request ex_new_world"
  let ?ps = "charge_request 7 ex_user ex_request ex_order"
  have 1: "orders ex_new_world (req_orderId ex_request) = Some ex_order" by (simp add: ex_defs)
  have 2: "order_user ex_order = user_id ex_user" by (simp add: ex_defs)
  have 3: "\<not> isPaid ex_order" by (simp add: ex_defs)
  have 4: "findOne (active (req_orderId ex_request)) (payments ex_new_world) = None"
    by (simp add: ex_defs)
  have 5: "transaction_initialize (ex_gateway ex_success) ?ps
             = Resolves \<lparr>response_status = True, response_data = Some ex_success\<rparr>"
    by (simp add: ex_defs)
  have 6: "response_status \<lparr>response_status = True, response_data = Some ex_success\<rparr>"
    "response_data \<lparr>response_status = True, response_data = Some ex_success\<rparr> = Some ex_success"
    by simp_all
  have 7: "0 \<le> totalPrice ex_order" "js_or (req_currency ex_request) ''NGN'' \<in> set currency_enum"
    "generate_reference (req_orderId ex_request) 7 \<notin> set (map reference (payments ex_new_world))"
    by (simp_all add: ex_defs currency_enum_def)
  note eq = initializePayment_created[OF 1 2 3 4 5 6 7, of "''P2''"]
  have c: "payments (fst ?r) \<noteq> payments ex_new_world"
    by (simp add: eq)
  have r: "?r = (fst ?r, snd ?r)" by simp
  from created_payment[OF r c] show ?thesis .
qed

subsection \<open>The invariant of the paid flag, and the remaining branches of a poll\<close>

lemma paid_mirror_frame:
  "payments w' = payments w \<Longrightarrow> orders w' = orders w \<Longrightarrow> paid_mirror w' = paid_mirror w"
  by (simp add: paid_mirror_def)

lemma paid_mirror_put:
  assumes "paid_mirror w"
    and "status p = success \<longrightarrow> (case orders w (order p) of Some ord \<Rightarrow> isPaid ord | None \<Rightarrow> True)"
  shows "paid_mirror (put_payment i p w)"
proof -
  have "set ((payments w)[i := p]) \<subseteq> insert p (set (payments w))"
    by (rule set_update_subset_insert)
  with assms show ?thesis
    by (auto simp: paid_mirror_def)
qed

lemma paid_mirror_save_order:
  assumes "paid_mirror w" and "isPaid ord"
  shows "paid_mirror (save_order oid ord w)"
  using assms by (auto simp: paid_mirror_def split: option.splits)

lemma paid_mirror_add:
  assumes "paid_mirror w" and "status p \<noteq> success"
  shows "paid_mirror (add_payment p w)"
  using assms by (auto simp: paid_mirror_def)

lemma paid_mirror_initializePayment:
  assumes "paid_mirror w"
  shows "paid_mirror (fst (initializePayment gw now fresh usr rq w))"
proof (cases rule: initializePayment_outcome[of gw now fresh usr rq w])
  case early
  with assms show ?thesis by simp
next
  case (failed ord w1)
  with assms paid_mirror_frame[of w1 w] show ?thesis by simp
next
  case (not_created ord w1 r err)
  with assms paid_mirror_frame[of w1 w] show ?thesis by simp
next
  case (created ord w1 r d)
  with assms paid_mirror_frame[of w1 w] have "paid_mirror w1" by simp
  then have "paid_mirror (add_payment
      (pending_payment fresh usr rq ord (generate_reference (req_orderId rq) now) d) w1)"
    by (rule paid_mirror_add) (simp add: pending_payment_def)
  with created show ?thesis by simp
qed

lemma paid_mirror_verifyPayment:
  assumes "paid_mirror w"
  shows "paid_mirror (fst (verifyPayment lib gw usr ref w))"
proof (cases rule: verifyPayment_outcome[of lib gw usr ref w])
  case untouched
  with assms show ?thesis by simp
next
  case (unanswered l)
  with assms paid_mirror_frame[of "asked ref l w" w] show ?thesis by simp
next
  case (failed i d l)
  from assms paid_mirror_frame[of "asked ref l w" w] have a: "paid_mirror (asked ref l w)" by simp
  then have "paid_mirror (put_payment i (verified d (payments w ! i)) (asked ref l w))"
    using failed(3) by (intro paid_mirror_put) simp_all
  with a failed(4) show ?thesis by simp
next
  case (succeeded i d)
  let ?oid = "order (payments w ! i)"
  let ?w1 = "asked ref (Info (''Payment verified: '' @ ref @ '' - Status: success'')) w"
  let ?w2 = "case orders w ?oid of
               Some ord \<Rightarrow> save_order ?oid (mark_paid lib ref d ord) ?w1 | None \<Rightarrow> ?w1"
  from assms paid_mirror_frame[of ?w1 w] have w1: "paid_mirror ?w1" by simp
  have w2: "paid_mirror ?w2"
    using w1 by (auto split: option.splits intro!: paid_mirror_save_order simp: mark_paid_def)
  have put: "paid_mirror (put_payment i (charged lib d (payments w ! i)) ?w2)"
    using w2 by (intro paid_mirror_put) (auto split: option.splits simp: mark_paid_def)
  have eq: "fst (verifyPayment lib gw usr ref w) =
      (if validate (charged lib d (payments w ! i)) = []
       then put_payment i (charged lib d (payments w ! i)) ?w2 else ?w2)"
    unfolding poll_success[OF succeeded] Let_def if_distrib[of fst] fst_conv by (rule refl)
  show ?thesis
  proof (cases "validate (charged lib d (payments w ! i)) = []")
    case True
    then have "fst (verifyPayment lib gw usr ref w)
        = put_payment i (charged lib d (payments w ! i)) ?w2"
      unfolding eq by simp
    with put show ?thesis by (simp only:)
  next
    case False
    then have "fst (verifyPayment lib gw usr ref w) = ?w2"
      unfolding eq by simp
    with w2 show ?thesis by (simp only:)
  qed
qed

lemma paid_mirror_handleWebhook:
  assumes "paid_mirror w"
  shows "paid_mirror (fst (handleWebhook lib e signature body w))"
proof (cases rule: handleWebhook_outcome[of lib e signature body w])
  case logged
  with assms paid_mirror_frame[of "fst (handleWebhook lib e signature body w)" w]
  show ?thesis by simp
next
  case (charged i)
  let ?w' = "fst (handleWebhook lib e signature body w)"
  let ?oid = "order (payments w ! i)"
  note fs = hook_success_fields[OF charged(3,1,2,4)]
  have sub: "set (payments ?w') \<subseteq> insert (charged lib (body_data body) (payments w ! i)) (set (payments w))"
    unfolding fs by (rule set_update_subset_insert)
  show ?thesis
    unfolding paid_mirror_def
  proof (intro ballI impI)
    fix p assume p: "p \<in> set (payments ?w')" and s: "status p = success"
    show "case orders ?w' (order p) of Some ord \<Rightarrow> isPaid ord | None \<Rightarrow> True"
    proof (cases "p \<in> set (payments w)")
      case True
      with assms s have "case orders w (order p) of Some ord \<Rightarrow> isPaid ord | None \<Rightarrow> True"
        by (auto simp: paid_mirror_def)
      then show ?thesis
        unfolding fs by (auto split: option.splits simp: mark_paid_def)
    next
      case False
      with p sub have "p = charged lib (body_data body) (payments w ! i)" by auto
      then show ?thesis
        unfolding fs by (auto split: option.splits simp: mark_paid_def)
    qed
  qed
next
  case (declined i)
  let ?w' = "fst (handleWebhook lib e signature body w)"
  have sub: "set (payments ?w') \<subseteq> insert (declined (body_data body) (payments w ! i)) (set (payments w))"
    unfolding declined(5) by (rule set_update_subset_insert)
  with assms declined(6) show ?thesis
    by (auto simp: paid_mirror_def)
qed

text \<open>
  Each of the three handlers keeps the invariant that a successful payment of an existing
  order has its order flagged paid: so in every state reached from one with no successful
  payment, an order with a successful payment is refused by its paid flag.
\<close>

theorem paid_mirror_preserved:
  assumes "paid_mirror w"
  shows "paid_mirror (fst (initializePayment gw now fresh usr rq w)) \<and>
         paid_mirror (fst (verifyPayment lib gw' usr' ref w)) \<and>
         paid_mirror (fst (handleWebhook lib e signature body w))"
  using assms
  by (simp add: paid_mirror_initializePayment paid_mirror_verifyPayment paid_mirror_handleWebhook)

theorem paid_mirror_preserved_witness:
  "paid_mirror (fst (verifyPayment ex_library (ex_gateway ex_success) ex_user ''ORDER-O1-1'' ex_world)) \<and>
   paid_mirror (fst (handleWebhook ex_library ex_env (Some ''sk_charge.success'')
                  \<lparr>body_event = ''charge.success'', body_data = ex_success\<rparr> ex_world))"
proof -
  have "paid_mirror ex_world" by (simp add: paid_mirror_def ex_defs)
  from paid_mirror_preserved[OF this] show ?thesis by blast
qed

text \<open>
  Every payment of the ledger passes the validators of the schema: the handlers keep it
  so, since every write of a payment is validated.
\<close>

lemma ledger_valid_preserved:
  assumes "\<forall>p\<in>set (payments w). validate p = []"
  shows "(\<forall>p\<in>set (payments (fst (initializePayment gw now fresh usr rq w))). validate p = []) \<and>
         (\<forall>p\<in>set (payments (resolve lib e ref r w)). validate p = [])"
proof
  show "\<forall>p\<in>set (payments (fst (initializePayment gw now fresh usr rq w))). validate p = []"
  proof (cases rule: initializePayment_outcome[of gw now fresh usr rq w])
    case early
    with assms show ?thesis by simp
  next
    case (failed ord w1)
    with assms show ?thesis by simp
  next
    case (not_created ord w1 r err)
    with assms show ?thesis by simp
  next
    case (created ord w1 r d)
    with assms show ?thesis by simp
  qed
  have upd: "\<forall>p\<in>set ((payments w)[i := q]). validate p = []" if "validate q = []" for i q
    using assms that set_update_subset_insert[of "payments w" i q] by auto
  show "\<forall>p\<in>set (payments (resolve lib e ref r w)). validate p = []"
  proof (cases r)
    case (Poll gw usr)
    show ?thesis
    proof (cases rule: verifyPayment_outcome[of lib gw usr ref w])
      case untouched
      with Poll assms show ?thesis by simp
    next
      case (unanswered l)
      with Poll assms show ?thesis by simp
    next
      case (failed i d l)
      show ?thesis
      proof (cases "validate (verified d (payments w ! i)) = []")
        case True
        from failed(4) upd[OF True, of i] Poll True show ?thesis by simp
      next
        case False
        with failed(4) assms Poll show ?thesis by simp
      qed
    next
      case (succeeded i d)
      note fs = poll_success_fields(1)[OF succeeded, of lib]
      show ?thesis unfolding Poll resolve.simps fs using assms upd by simp
    qed
  next
    case (Hook signature body)
    show ?thesis
    proof (cases rule: handleWebhook_outcome[of lib e signature body w])
      case logged
      with Hook assms show ?thesis by simp
    next
      case (charged i)
      note fs = hook_success_fields(1)[OF charged(3,1,2,4)]
      show ?thesis unfolding Hook resolve.simps fs using upd[OF charged(4)] by simp
    next
      case (declined i)
      with Hook upd[OF declined(4)] show ?thesis by simp
    qed
  qed
qed

text \<open>
  When the gateway rejects the verification of a payment that is not yet successful, the
  poll throws the wrapped error, and neither a payment nor an order is written.
\<close>

theorem poll_gateway_error:
  assumes "findOne (\<lambda>p. reference p = ref) (payments w) = Some i"
    and "user (payments w ! i) = user_id usr" and "status (payments w ! i) \<noteq> success"
    and "transaction_verify gw ref = Rejects m"
  shows "verifyPayment lib gw usr ref w =
           (asked ref (Err (''Paystack verification error: '' @ m)) w,
            Inl (Thrown (''Payment verification failed: '' @ m))) \<and>
         payments (fst (verifyPayment lib gw usr ref w)) = payments w \<and>
         orders (fst (verifyPayment lib gw usr ref w)) = orders w \<and>
         db_writes (fst (verifyPayment lib gw usr ref w)) = db_writes w"
  using assms
  by (simp add: verifyPayment_def verifyTransaction_def Let_def asked_def)

theorem poll_gateway_error_witness:
  "verifyPayment ex_library ex_down ex_user ''ORDER-O1-1'' ex_world =
     (asked ''ORDER-O1-1'' (Err ''Paystack verification error: timeout'') ex_world,
      Inl (Thrown ''Payment verification failed: timeout'')) \<and>
   payments (fst (verifyPayment ex_library ex_down ex_user ''ORDER-O1-1'' ex_world)) = payments ex_world"
proof -
  have 1: "findOne (\<lambda>p. reference p = ''ORDER-O1-1'') (payments ex_world) = Some 0"
    by (simp add: ex_defs)
  have 2: "user (payments ex_world ! 0) = user_id ex_user" by (simp add: ex_defs)
  have 3: "status (payments ex_world ! 0) \<noteq> success" by (simp add: ex_defs)
  have 4: "transaction_verify ex_down ''ORDER-O1-1'' = Rejects ''timeout''" by (simp add: ex_defs)
  from poll_gateway_error[OF 1 2 3 4] show ?thesis by simp
qed

text \<open>A poll for a reference no payment carries fails with a 404 and changes nothing.\<close>

theorem unknown_reference:
  assumes "\<forall>p\<in>set (payments w). reference p \<noteq> ref"
  shows "verifyPayment lib gw usr ref w = (w, Inl (AppError ''Payment not found'' 404))"
proof -
  from assms have "findOne (\<lambda>p. reference p = ref) (payments w) = None"
    by (simp add: findOne_None_iff)
  then show ?thesis by (simp add: verifyPayment_def)
qed

theorem unknown_reference_witness:
  "verifyPayment ex_library (ex_gateway ex_success) ex_user ''ORDER-O9-9'' ex_world
     = (ex_world, Inl (AppError ''Payment not found'' 404))"
proof -
  have "\<forall>p\<in>set (payments ex_world). reference p \<noteq> ''ORDER-O9-9''" by (simp add: ex_defs)
  from unknown_reference[OF this] show ?thesis .
qed

text \<open>
  The first scenario of the specification: order O1 of user U1 with total 5000; the
  payment is initialized, then resolved by a poll with a success verdict; a second
  initialization fails.
\<close>

lemma scenario_initialize_resolve_initialize:
  "map status (payments (fst (initializePayment (ex_gateway ex_success) (Suc 0) ''P1'' ex_user ex_request
                                 ex_new_world))) = [pending] \<and>
   map reference (payments (fst (initializePayment (ex_gateway ex_success) (Suc 0) ''P1'' ex_user ex_request
                                 ex_new_world))) = [''ORDER-O1-1''] \<and>
   map status (payments (fst (verifyPayment ex_library (ex_gateway ex_success) ex_user ''ORDER-O1-1''
        (fst (initializePayment (ex_gateway ex_success) (Suc 0) ''P1'' ex_user ex_request ex_new_world)))))
     = [success] \<and>
   map_option (\<lambda>ord. (isPaid ord, order_paidAt ord))
     (orders (fst (verifyPayment ex_library (ex_gateway ex_success) ex_user ''ORDER-O1-1''
        (fst (initializePayment (ex_gateway ex_success) (Suc 0) ''P1'' ex_user ex_request ex_new_world))))
        ''O1'')
     = Some (True, Some (Date (Some 1704067200000))) \<and>
   snd (initializePayment (ex_gateway ex_success) 2 ''P2'' ex_user ex_request
     (fst (verifyPayment ex_library (ex_gateway ex_success) ex_user ''ORDER-O1-1''
        (fst (initializePayment (ex_gateway ex_success) (Suc 0) ''P1'' ex_user ex_request ex_new_world)))))
     = Inl (AppError ''Order is already paid'' 400)"
proof -
  let ?w0 = ex_new_world
  let ?ps = "charge_request (Suc 0) ex_user ex_request ex_order"
  let ?p = "pending_payment ''P1'' ex_user ex_request ex_order ''ORDER-O1-1'' ex_success"
  let ?w1 = "add_payment ?p (called ?ps (Info ''Payment initialized: ORDER-O1-1'') ?w0)"
  have 1: "orders ?w0 (req_orderId ex_request) = Some ex_order" by (simp add: ex_defs)
  have 2: "order_user ex_order = user_id ex_user" by (simp add: ex_defs)
  have 3: "\<not> isPaid ex_order" by (simp add: ex_defs)
  have 4: "findOne (active (req_orderId ex_request)) (payments ?w0) = None" by (simp add: ex_defs)
  have 5: "transaction_initialize (ex_gateway ex_success) ?ps
             = Resolves \<lparr>response_status = True, response_data = Some ex_success\<rparr>"
    by (simp add: ex_defs)
  have 6: "response_status \<lparr>response_status = True, response_data = Some ex_success\<rparr>"
    "response_data \<lparr>response_status = True, response_data = Some ex_success\<rparr> = Some ex_success"
    by simp_all
  have 7: "0 \<le> totalPrice ex_order" "js_or (req_currency ex_request) ''NGN'' \<in> set currency_enum"
    "generate_reference (req_orderId ex_request) (Suc 0) \<notin> set (map reference (payments ?w0))"
    by (simp_all add: ex_defs currency_enum_def)
  have g: "generate_reference (req_orderId ex_request) (Suc 0) = ''ORDER-O1-1''"
    by (simp add: generate_reference_def ex_defs digit_def)
  have i1: "fst (initializePayment (ex_gateway ex_success) (Suc 0) ''P1'' ex_user ex_request ?w0) = ?w1"
    using initializePayment_created[OF 1 2 3 4 5 6 7, of "''P1''"] by (simp add: g)
  have e0: "payments ?w0 = []" by (simp add: ex_defs)
  have p1: "payments ?w1 = [?p]" by (simp add: e0)
  have f: "findOne (\<lambda>p. reference p = ''ORDER-O1-1'') (payments ?w1) = Some 0"
    by (simp add: e0 pending_payment_def)
  have own: "user (payments ?w1 ! 0) = user_id ex_user" by (simp add: e0 pending_payment_def)
  have st: "status (payments ?w1 ! 0) \<noteq> success" by (simp add: e0 pending_payment_def)
  have v: "verdict ''ORDER-O1-1'' (Poll (ex_gateway ex_success) ex_user) = Some ex_success"
    by (simp add: ex_defs)
  have s: "data_status ex_success = Some ''success''" by (simp add: ex_defs)
  have val: "validate (charged ex_library ex_success (payments ?w1 ! 0)) = []"
    by (simp add: e0 validate_def charged_def pending_payment_def new_Date_def currency_enum_def
        paymentMethod_enum_def ex_defs)
  have oo: "orders ?w1 (order (payments ?w1 ! 0)) = Some ex_order"
    by (simp add: e0 pending_payment_def ex_defs)
  have oid: "order (payments ?w1 ! 0) = ''O1''" by (simp add: e0 pending_payment_def ex_defs)
  let ?w2 = "fst (verifyPayment ex_library (ex_gateway ex_success) ex_user ''ORDER-O1-1'' ?w1)"
  note fs = poll_success_fields[OF f own st v s, of ex_library]
  have p2: "map status (payments ?w2) = [success]"
    unfolding fs(1) using val by (simp add: e0)
  have o2: "orders ?w2 ''O1'' = Some (mark_paid ex_library ''ORDER-O1-1'' ex_success ex_order)"
    unfolding fs(2) oo oid by (simp add: ex_new_world_def ex_world_def)
  have paid: "isPaid (mark_paid ex_library ''ORDER-O1-1'' ex_success ex_order)"
    "order_paidAt (mark_paid ex_library ''ORDER-O1-1'' ex_success ex_order)
       = Some (Date (Some 1704067200000))"
    by (simp_all add: mark_paid_def new_Date_def ex_defs)
  have o2': "orders ?w2 (req_orderId ex_request)
      = Some (mark_paid ex_library ''ORDER-O1-1'' ex_success ex_order)"
    using o2 by (simp add: ex_defs)
  have own2: "order_user (mark_paid ex_library ''ORDER-O1-1'' ex_success ex_order) = user_id ex_user"
    by (simp add: mark_paid_def ex_defs)
  note again = initializePayment_paid[OF o2' own2 paid(1), of "ex_gateway ex_success" 2 "''P2''"]
  have p1s: "map status (payments ?w1) = [pending]" "map reference (payments ?w1) = [''ORDER-O1-1'']"
    by (simp_all add: e0 pending_payment_def)
  show ?thesis
    unfolding i1 using p1s p2 o2 paid again[unfolded i1] by simp
qed


end
